theory Spec2Isabelle
  imports Complex_Main "HOL-Library.Log_Nat"
begin

section \<open>JavaScript strings\<close>

text \<open>
  Strings are lists of code units; the model covers the code units 0..255, which is
  where every delimiter, keyword and CSS property name of the source lives. The
  white space of \<open>String.prototype.trim\<close> and of the regular expression class
  \<open>\s\<close> is, below 256: TAB, LF, VT, FF, CR, SPACE and NBSP.
\<close>

definition js_space :: "char \<Rightarrow> bool" where
  "js_space c = (of_char c \<in> {9, 10, 11, 12, 13, 32, 160 :: nat})"

definition trimStart :: "string \<Rightarrow> string" where
  "trimStart s = dropWhile js_space s"

definition trim :: "string \<Rightarrow> string" where
  "trim s = rev (dropWhile js_space (rev (dropWhile js_space s)))"

definition startsWith :: "string \<Rightarrow> string \<Rightarrow> bool" where
  "startsWith s p = (take (length p) s = p)"

text \<open>\<open>s.includes(p)\<close>: \<open>p\<close> occurs in \<open>s\<close> at some index.\<close>

fun includes_str :: "string \<Rightarrow> string \<Rightarrow> bool" where
  "includes_str [] p = (p = [])"
| "includes_str (c # s) p = (startsWith (c # s) p \<or> includes_str s p)"

declare includes_str.simps [simp del]

definition is_upper_AZ :: "char \<Rightarrow> bool" where
  "is_upper_AZ c = (65 \<le> (of_char c :: nat) \<and> (of_char c :: nat) \<le> 90)"

text \<open>
  \<open>toLowerCase\<close> on the code units below 256: A..Z and the Latin-1 capitals
  U+00C0..U+00DE (but the multiplication sign U+00D7) move up by 32.
\<close>

definition lower_char :: "char \<Rightarrow> char" where
  "lower_char c =
     (let n = (of_char c :: nat)
      in if (65 \<le> n \<and> n \<le> 90) \<or> (192 \<le> n \<and> n \<le> 222 \<and> n \<noteq> 215)
         then char_of (n + 32) else c)"

definition toLowerCase :: "string \<Rightarrow> string" where
  "toLowerCase s = map lower_char s"

text \<open>\<open>key.replace(/([A-Z])/g, '-$1')\<close>: a hyphen goes before every capital A..Z.\<close>

definition hyphenate :: "string \<Rightarrow> string" where
  "hyphenate key = concat (map (\<lambda>c. if is_upper_AZ c then [CHR ''-'', c] else [c]) key)"

text \<open>\<open>parts.join(sep)\<close>.\<close>

fun join :: "string \<Rightarrow> string list \<Rightarrow> string" where
  "join sep [] = []"
| "join sep [x] = x"
| "join sep (x # y # ys) = x @ sep @ join sep (y # ys)"

text \<open>Decimal digits of a natural number, as a template literal prints an integer.\<close>

fun digits :: "nat \<Rightarrow> string" where
  "digits n = (if n < 10 then [char_of (48 + n)] else digits (n div 10) @ [char_of (48 + n mod 10)])"

declare digits.simps [simp del]

section \<open>Style objects and their serialisation\<close>

text \<open>
  A style value is what a StyleOptions entry can hold: a string, a number, a nested
  object (the value of a media query key), or \<open>undefined\<close> / \<open>null\<close>. Numbers are
  an abstract type \<open>'n\<close>; their conversion to a string by the language is the parameter
  \<open>num\<close> of the functions below. A style object is the list of its entries, in the
  order \<open>Object.entries\<close> yields them.
\<close>

datatype 'n jsval =
    JUndefined
  | JNull
  | JStr string
  | JNum 'n
  | JObj "(string \<times> 'n jsval) list"

type_synonym 'n StyleOptions = "(string \<times> 'n jsval) list"

text \<open>The string a template literal \<open>`${value}`\<close> inserts.\<close>

fun toString :: "('n \<Rightarrow> string) \<Rightarrow> 'n jsval \<Rightarrow> string" where
  "toString num JUndefined = ''undefined''"
| "toString num JNull = ''null''"
| "toString num (JStr s) = s"
| "toString num (JNum n) = num n"
| "toString num (JObj es) = ''[object Object]''"

text \<open>
  The object literal \<open>{ ...style, key: value }\<close>: an own key keeps its place and takes
  the new value, a new key goes last.
\<close>

fun set_prop :: "'n StyleOptions \<Rightarrow> string \<Rightarrow> 'n jsval \<Rightarrow> 'n StyleOptions" where
  "set_prop [] k v = [(k, v)]"
| "set_prop ((k', v') # es) k v = (if k' = k then (k, v) # es else (k', v') # set_prop es k v)"

definition media_key :: string where
  "media_key = ''@media (max-width: 768px)''"

definition is_number :: "'n jsval \<Rightarrow> bool" where
  "is_number v = (case v of JNum n \<Rightarrow> True | _ \<Rightarrow> False)"

text \<open>The callback of \<open>.map\<close> in cssPropertiesToString.\<close>

definition css_declaration :: "('n \<Rightarrow> string) \<Rightarrow> string \<times> 'n jsval \<Rightarrow> string" where
  "css_declaration num e =
     (case e of (key, value) \<Rightarrow>
        if key = media_key then []
        else
          let cssKey = toLowerCase (hyphenate key);
              value' = (if is_number value \<and> \<not> includes_str cssKey ''line-height''
                        then JStr (toString num value @ ''px'') else value)
          in cssKey @ '': '' @ toString num value')"

text \<open>
  The array cssPropertiesToString joins: \<open>Object.entries(style)\<close>, without the
  \<open>undefined\<close> and \<open>null\<close> values, mapped to declarations, without the empty ones.
\<close>

definition css_declarations :: "('n \<Rightarrow> string) \<Rightarrow> 'n StyleOptions \<Rightarrow> string list" where
  "css_declarations num es =
     filter (\<lambda>s. s \<noteq> [])
       (map (css_declaration num)
          (filter (\<lambda>(k, v). v \<noteq> JUndefined \<and> v \<noteq> JNull) es))"

text \<open>
  cssPropertiesToString. The argument is \<open>None\<close> when the caller passes no object
  (\<open>undefined\<close>, replaced by the default \<open>{}\<close>) or \<open>null\<close> (the guard \<open>!style\<close>):
  both give the empty string.
\<close>

definition cssPropertiesToString :: "('n \<Rightarrow> string) \<Rightarrow> 'n StyleOptions option \<Rightarrow> string" where
  "cssPropertiesToString num style =
     (case style of
        None \<Rightarrow> []
      | Some es \<Rightarrow> join '';'' (css_declarations num es))"

section \<open>Double precision arithmetic\<close>

text \<open>
  isLightColor computes with IEEE 754 doubles. A finite double is modelled by the
  rational it denotes; \<open>fl\<close> rounds a rational to the nearest double, ties to the even
  significand (53 bits). Subnormals and overflow are not modelled: every value
  isLightColor computes is 0 or has a magnitude between \<open>2 ^ -10\<close> and \<open>2 ^ 10\<close>.
\<close>

definition pow2 :: "int \<Rightarrow> rat" where
  "pow2 k = (if 0 \<le> k then 2 ^ nat k else 1 / 2 ^ nat (- k))"

definition round_half_even :: "rat \<Rightarrow> int" where
  "round_half_even q =
     (let f = \<lfloor>q\<rfloor>; d = q - of_int f
      in if d < 1 / 2 then f else if 1 / 2 < d then f + 1 else if even f then f else f + 1)"

text \<open>
  The exponent \<open>k\<close> with \<open>2 ^ k \<le> x < 2 ^ (k + 1)\<close>, for a positive \<open>x\<close>: one less than
  the bit length of the integer part when \<open>x\<close> is at least 1, and otherwise read from
  the reciprocal.
\<close>

definition binade :: "rat \<Rightarrow> int" where
  "binade x = (if 1 \<le> x then bitlen \<lfloor>x\<rfloor> - 1 else - bitlen (\<lceil>1 / x\<rceil> - 1))"

definition fl_pos :: "rat \<Rightarrow> rat" where
  "fl_pos x = (let e = binade x - 52 in of_int (round_half_even (x / pow2 e)) * pow2 e)"

definition fl :: "rat \<Rightarrow> rat" where
  "fl x = (if x = 0 then 0 else if x < 0 then - fl_pos (- x) else fl_pos x)"

definition dmul :: "rat \<Rightarrow> rat \<Rightarrow> rat" where
  "dmul x y = fl (x * y)"

definition dadd :: "rat \<Rightarrow> rat \<Rightarrow> rat" where
  "dadd x y = fl (x + y)"

definition ddiv :: "rat \<Rightarrow> rat \<Rightarrow> rat" where
  "ddiv x y = fl (x / y)"

section \<open>Theme lookup\<close>

text \<open>
  The table \<open>codeThemes\<close> comes from a configuration module that is not among the
  sources; it is the parameter \<open>codeThemes\<close> of the functions below. An entry has an
  \<open>id\<close> and a \<open>theme\<close>: a background colour, a text colour and one colour per token
  type.
\<close>

record ThemeColors =
  background :: string
  text_color :: string
  token_colors :: "(string \<times> string) list"

record CodeTheme =
  theme_id :: string
  theme :: ThemeColors

text \<open>
  \<open>theme[tokenType]\<close>, as the string a template literal inserts; \<open>None\<close> is
  \<open>undefined\<close>. The theme is an object literal, so a name that is not an own property
  is looked up in \<open>Object.prototype\<close>: its members are built-in functions, printed as V8
  prints them, and the accessor \<open>__proto__\<close>, which yields the prototype object itself.
  All of them are truthy.
\<close>

definition object_prototype_functions :: "(string \<times> string) list" where
  "object_prototype_functions =
     [(''constructor'', ''Object''),
      (''__defineGetter__'', ''__defineGetter__''),
      (''__defineSetter__'', ''__defineSetter__''),
      (''hasOwnProperty'', ''hasOwnProperty''),
      (''__lookupGetter__'', ''__lookupGetter__''),
      (''__lookupSetter__'', ''__lookupSetter__''),
      (''isPrototypeOf'', ''isPrototypeOf''),
      (''propertyIsEnumerable'', ''propertyIsEnumerable''),
      (''toString'', ''toString''),
      (''valueOf'', ''valueOf''),
      (''toLocaleString'', ''toLocaleString'')]"

definition object_prototype_prop :: "string \<Rightarrow> string option" where
  "object_prototype_prop k =
     (if k = ''__proto__'' then Some ''[object Object]''
      else map_option (\<lambda>name. ''function '' @ name @ ''() { [native code] }'')
             (map_of object_prototype_functions k))"

definition theme_prop :: "ThemeColors \<Rightarrow> string \<Rightarrow> string option" where
  "theme_prop t k =
     (if k = ''background'' then Some (background t)
      else if k = ''text'' then Some (text_color t)
      else (case map_of (token_colors t) k of
              Some c \<Rightarrow> Some c
            | None \<Rightarrow> object_prototype_prop k))"

text \<open>
  \<open>parseInt(s, 16)\<close>: leading white space, a sign, an optional \<open>0x\<close>, then the
  longest run of hexadecimal digits; \<open>None\<close> is NaN. (isLightColor passes strings of
  at most two code units, so the digits are read exactly.)
\<close>

definition is_hex_digit :: "char \<Rightarrow> bool" where
  "is_hex_digit c =
     (let n = (of_char c :: nat)
      in (48 \<le> n \<and> n \<le> 57) \<or> (97 \<le> n \<and> n \<le> 102) \<or> (65 \<le> n \<and> n \<le> 70))"

definition hex_digit_value :: "char \<Rightarrow> nat" where
  "hex_digit_value c =
     (let n = (of_char c :: nat)
      in if 48 \<le> n \<and> n \<le> 57 then n - 48
         else if 97 \<le> n \<and> n \<le> 102 then n - 87
         else n - 55)"

definition parseInt16 :: "string \<Rightarrow> int option" where
  "parseInt16 str =
     (let s = trimStart str;
          negative = startsWith s ''-'';
          s1 = (if startsWith s ''-'' \<or> startsWith s ''+'' then drop 1 s else s);
          s2 = (if startsWith s1 ''0x'' \<or> startsWith s1 ''0X'' then drop 2 s1 else s1);
          z = takeWhile is_hex_digit s2;
          n = foldl (\<lambda>acc c. 16 * acc + hex_digit_value c) 0 z
      in if z = [] then None else Some (if negative then - int n else int n))"

text \<open>\<open>color.replace('#', '')\<close>: the first \<open>#\<close> goes.\<close>

fun remove_first :: "char \<Rightarrow> string \<Rightarrow> string" where
  "remove_first c [] = []"
| "remove_first c (x # xs) = (if x = c then xs else x # remove_first c xs)"

text \<open>\<open>(0.299 * r + 0.587 * g + 0.114 * b) / 255\<close>, in doubles, left to right.\<close>

definition luminance :: "int \<Rightarrow> int \<Rightarrow> int \<Rightarrow> rat" where
  "luminance r g b =
     ddiv (dadd (dadd (dmul (fl (299 / 1000)) (of_int r)) (dmul (fl (587 / 1000)) (of_int g)))
                (dmul (fl (114 / 1000)) (of_int b)))
          255"

definition isLightColor :: "string \<Rightarrow> bool" where
  "isLightColor color =
     (let hex = remove_first CHR ''#'' color;
          parsed = (if length hex = 3
                    then map (\<lambda>c. parseInt16 [c, c]) hex
                    else map parseInt16 [take 2 hex, take 2 (drop 2 hex), take 2 (drop 4 hex)])
      in case parsed of
           [Some r, Some g, Some b] \<Rightarrow> fl (7 / 10) < luminance r g b
         | _ \<Rightarrow> False)"

definition getCodeThemeStyles :: "CodeTheme list \<Rightarrow> string \<Rightarrow> 'n StyleOptions" where
  "getCodeThemeStyles codeThemes th =
     (case find (\<lambda>t. theme_id t = th) codeThemes of
        None \<Rightarrow> []
      | Some themeConfig \<Rightarrow>
          [(''background'', JStr (background (theme themeConfig))),
           (''color'', JStr (text_color (theme themeConfig)))])"

definition getTokenStyles :: "CodeTheme list \<Rightarrow> string \<Rightarrow> string \<Rightarrow> bool \<Rightarrow> string" where
  "getTokenStyles codeThemes th tokenType forceDarkPalette =
     (case find (\<lambda>t. theme_id t = th) codeThemes of
        None \<Rightarrow> []
      | Some requested \<Rightarrow>
          let themeConfig =
                (if forceDarkPalette \<and> isLightColor (background (theme requested))
                 then (case find (\<lambda>t. theme_id t = ''monokai'') codeThemes of
                         Some fallbackTheme \<Rightarrow> fallbackTheme
                       | None \<Rightarrow> requested)
                 else requested);
              tokenColor =
                (case theme_prop (theme themeConfig) tokenType of
                   None \<Rightarrow> text_color (theme themeConfig)
                 | Some c \<Rightarrow> if c \<noteq> [] then c else text_color (theme themeConfig))
          in if tokenColor = [] then [] else ''color: '' @ tokenColor @ '';'')"

definition isLightCodeTheme :: "CodeTheme list \<Rightarrow> string \<Rightarrow> bool" where
  "isLightCodeTheme codeThemes th =
     (case find (\<lambda>t. theme_id t = th) codeThemes of
        None \<Rightarrow> False
      | Some themeConfig \<Rightarrow> isLightColor (background (theme themeConfig)))"

text \<open>
  The colours on the threshold. The weighted sum \<open>299 r + 587 g + 114 b\<close> equals
  178500 for a few channel values; there the exact luminance is 0.7 and the rounding
  decides. For a red channel \<open>r\<close> the green channels of such colours are congruent to
  \<open>47 (178500 - 299 r)\<close> modulo 114, so three candidates cover the range 0..255;
  \<open>ties_dark r\<close> says that every colour on the threshold with red channel \<open>r\<close> is
  classified as not light. It is used to check these colours one by one.
\<close>

definition tie_dark :: "int \<Rightarrow> int \<Rightarrow> bool" where
  "tie_dark r g =
     (if g \<le> 255 \<and> 0 \<le> 178500 - 299 * r - 587 * g \<and> (178500 - 299 * r - 587 * g) mod 114 = 0
         \<and> (178500 - 299 * r - 587 * g) div 114 \<le> 255
      then \<not> (fl (7 / 10) < luminance r g ((178500 - 299 * r - 587 * g) div 114))
      else True)"

definition ties_dark :: "int \<Rightarrow> bool" where
  "ties_dark r =
     (tie_dark r ((47 * (178500 - 299 * r)) mod 114) \<and>
      tie_dark r ((47 * (178500 - 299 * r)) mod 114 + 114) \<and>
      tie_dark r ((47 * (178500 - 299 * r)) mod 114 + 228))"

section \<open>Regular expressions\<close>

text \<open>
  The regular expressions of the source are written as terms of the datatype \<open>regex\<close>
  and run by a backtracking matcher. A matcher state is the input already passed (in
  reverse), the input still to come and the captures made so far; \<open>matches r s\<close> lists
  the states in which \<open>r\<close> can end when started in \<open>s\<close>, in the order in which a
  backtracking engine tries them, so the head of the list is the match the engine
  reports. \<open>Star Greedy\<close> tries the longer repetition first, \<open>Star Lazy\<close> the shorter
  one; an iteration that consumes nothing ends the repetition. \<open>NotAfter P\<close> is the
  lookbehind \<open>(?<!c)\<close> for a class \<open>P\<close> of single code units, \<open>Bol\<close> and \<open>Eol\<close> are
  \<open>^\<close> and \<open>$\<close> without the multiline flag.
\<close>

datatype greed = Greedy | Lazy

datatype regex =
    Chr char
  | Cls "char \<Rightarrow> bool"
  | Bol
  | Eol
  | NotAfter "char \<Rightarrow> bool"
  | Eps
  | Seq regex regex
  | Alt regex regex
  | Star greed regex
  | Grp nat regex

type_synonym mstate = "string \<times> string \<times> (nat \<times> string) list"

fun matches :: "regex \<Rightarrow> mstate \<Rightarrow> mstate list" where
  "matches (Chr c) (seen, todo, caps) =
     (case todo of [] \<Rightarrow> [] | x # xs \<Rightarrow> if x = c then [(x # seen, xs, caps)] else [])"
| "matches (Cls P) (seen, todo, caps) =
     (case todo of [] \<Rightarrow> [] | x # xs \<Rightarrow> if P x then [(x # seen, xs, caps)] else [])"
| "matches Bol (seen, todo, caps) = (if seen = [] then [(seen, todo, caps)] else [])"
| "matches Eol (seen, todo, caps) = (if todo = [] then [(seen, todo, caps)] else [])"
| "matches (NotAfter P) (seen, todo, caps) =
     (case seen of [] \<Rightarrow> [(seen, todo, caps)]
      | p # ps \<Rightarrow> if P p then [] else [(seen, todo, caps)])"
| "matches Eps s = [s]"
| "matches (Seq a b) s = concat (map (matches b) (matches a s))"
| "matches (Alt a b) s = matches a s @ matches b s"
| "matches (Star Greedy r) (seen, todo, caps) =
     concat (map (\<lambda>(seen', todo', caps').
                    if length todo' < length todo
                    then matches (Star Greedy r) (seen', todo', caps') else [])
               (matches r (seen, todo, caps)))
     @ [(seen, todo, caps)]"
| "matches (Star Lazy r) (seen, todo, caps) =
     (seen, todo, caps) #
     concat (map (\<lambda>(seen', todo', caps').
                    if length todo' < length todo
                    then matches (Star Lazy r) (seen', todo', caps') else [])
               (matches r (seen, todo, caps)))"
| "matches (Grp i r) (seen, todo, caps) =
     map (\<lambda>(seen', todo', caps').
            (seen', todo', (i, rev (take (length seen' - length seen) seen')) # caps'))
       (matches r (seen, todo, caps))"

declare matches.simps(9,10) [simp del]

lemmas matches_star = matches.simps(9,10)


text \<open>
  \<open>re.exec(src)\<close> for a regular expression without the global flag: the first start
  index, from 0 upwards, at which the expression matches.
\<close>

fun exec_from :: "regex \<Rightarrow> string \<Rightarrow> string \<Rightarrow> (string \<times> mstate) option" where
  "exec_from re seen [] =
     (case matches re (seen, [], []) of [] \<Rightarrow> None | s # _ \<Rightarrow> Some (seen, s))"
| "exec_from re seen (x # xs) =
     (case matches re (seen, x # xs, []) of
        [] \<Rightarrow> exec_from re (x # seen) xs
      | s # _ \<Rightarrow> Some (seen, s))"

record rmatch =
  m_index :: nat
  m_text :: string
  m_caps :: "(nat \<times> string) list"
  m_rest :: string

definition exec :: "regex \<Rightarrow> string \<Rightarrow> rmatch option" where
  "exec re src =
     (case exec_from re [] src of
        None \<Rightarrow> None
      | Some (start, seen', todo', caps') \<Rightarrow>
          Some \<lparr>m_index = length start,
                m_text = rev (take (length seen' - length start) seen'),
                m_caps = caps',
                m_rest = todo'\<rparr>)"

text \<open>
  \<open>match[i]\<close>. A group that took no part in the match is \<open>undefined\<close> in JavaScript;
  group 1 of every expression below is on every path, so that case does not arise.
\<close>

definition match_group :: "rmatch \<Rightarrow> nat \<Rightarrow> string" where
  "match_group mt i = (case map_of (m_caps mt) i of None \<Rightarrow> [] | Some g \<Rightarrow> g)"

text \<open>\<open>s.replace(re, repl)\<close> for an expression without the global flag.\<close>

definition replace_first :: "regex \<Rightarrow> string \<Rightarrow> string \<Rightarrow> string" where
  "replace_first re repl s =
     (case exec re s of
        None \<Rightarrow> s
      | Some mt \<Rightarrow> take (m_index mt) s @ repl @ m_rest mt)"

text \<open>
  \<open>s.replace(re, f)\<close> for an expression with the global flag and a callback \<open>f\<close> that
  takes the match and its group 1: the matches are searched from left to right, each
  search starting where the last match ended (an empty match moves on by one code unit).
  The callback may have effects; it takes and returns their state \<open>st\<close>, and is called
  on the matches from left to right.
\<close>

fun replace_all ::
  "regex \<Rightarrow> (string \<Rightarrow> string \<Rightarrow> 's \<Rightarrow> string \<times> 's) \<Rightarrow> string \<Rightarrow> string \<Rightarrow> 's \<Rightarrow> string \<times> 's" where
  "replace_all re f seen todo st =
     (case matches re (seen, todo, []) of
        [] \<Rightarrow>
          (case todo of
             [] \<Rightarrow> ([], st)
           | x # xs \<Rightarrow> (case replace_all re f (x # seen) xs st of (out, st') \<Rightarrow> (x # out, st')))
      | (seen', todo', caps') # _ \<Rightarrow>
          (case f (rev (take (length seen' - length seen) seen'))
                  (case map_of caps' 1 of None \<Rightarrow> [] | Some g \<Rightarrow> g) st of
             (replacement, st1) \<Rightarrow>
               (if length todo' < length todo
                then (case replace_all re f seen' todo' st1 of
                        (out, st2) \<Rightarrow> (replacement @ out, st2))
                else (case todo of
                        [] \<Rightarrow> (replacement, st1)
                      | x # xs \<Rightarrow>
                          (case replace_all re f (x # seen) xs st1 of
                             (out, st2) \<Rightarrow> (replacement @ x # out, st2))))))"

declare replace_all.simps [simp del]

text \<open>Shorthands for writing the expressions of the source.\<close>

definition str :: "string \<Rightarrow> regex" where
  "str s = foldr (\<lambda>c r. Seq (Chr c) r) s Eps"

definition seqs :: "regex list \<Rightarrow> regex" where
  "seqs rs = foldr Seq rs Eps"

fun alts :: "regex list \<Rightarrow> regex" where
  "alts [] = Cls (\<lambda>c. False)"
| "alts [r] = r"
| "alts (r # rs) = Alt r (alts rs)"

definition rplus :: "greed \<Rightarrow> regex \<Rightarrow> regex" where
  "rplus g r = Seq r (Star g r)"

definition opt :: "regex \<Rightarrow> regex" where
  "opt r = Alt r Eps"

definition any_char :: regex where
  "any_char = Cls (\<lambda>c. True)"

definition space :: regex where
  "space = Cls js_space"

definition newline :: char where
  "newline = CHR 0x0A"

section \<open>Extension tokenizers\<close>

text \<open>A custom token: its \<open>type\<close>, \<open>raw\<close>, \<open>tokens\<close> and \<open>text\<close> fields.\<close>

datatype token = Token (tok_type: string) (raw: string) (tokens: "token list") (tok_text: string)

text \<open>\<open>/^\$\$([\s\S]*?)\$\$/\<close>\<close>

definition latex_rule :: regex where
  "latex_rule = seqs [Bol, str ''$$'', Grp 1 (Star Lazy any_char), str ''$$'']"

definition latexBlock_tokenizer :: "string \<Rightarrow> token option" where
  "latexBlock_tokenizer src =
     (case exec latex_rule src of
        None \<Rightarrow> None
      | Some match \<Rightarrow>
          let content = trim (match_group match 1)
          in Some (Token ''latexBlock'' (m_text match) [] content))"

text \<open>\<open>/^```(?:mermaid\s*\n)?([\s\S]*?)\n*```(?:\s*\n|$)/\<close>\<close>

definition mermaid_rule :: regex where
  "mermaid_rule =
     seqs [Bol, str ''```'',
           opt (seqs [str ''mermaid'', Star Greedy space, Chr newline]),
           Grp 1 (Star Lazy any_char),
           Star Greedy (Chr newline),
           str ''```'',
           Alt (seqs [Star Greedy space, Chr newline]) Eol]"

text \<open>\<open>/^(?:pie\s+|graph\s+|sequenceDiagram\s+|gantt\s+|classDiagram\s+|flowchart\s+)/\<close>\<close>

definition diagram_rule :: regex where
  "diagram_rule =
     seqs [Bol,
           alts [seqs [str ''pie'', rplus Greedy space],
                 seqs [str ''graph'', rplus Greedy space],
                 seqs [str ''sequenceDiagram'', rplus Greedy space],
                 seqs [str ''gantt'', rplus Greedy space],
                 seqs [str ''classDiagram'', rplus Greedy space],
                 seqs [str ''flowchart'', rplus Greedy space]]]"

text \<open>\<open>/^pie\s*/\<close>\<close>

definition pie_rule :: regex where
  "pie_rule = seqs [Bol, str ''pie'', Star Greedy space]"

definition mermaidBlock_tokenizer :: "string \<Rightarrow> token option" where
  "mermaidBlock_tokenizer src =
     (case exec mermaid_rule src of
        None \<Rightarrow> None
      | Some match \<Rightarrow>
          let content = trim (match_group match 1)
          in if exec diagram_rule content \<noteq> None
             then
               let processedContent =
                     (if startsWith content ''pie''
                      then ''pie showData'' @ [newline] @ trim (replace_first pie_rule [] content)
                      else content)
               in Some (Token ''mermaidBlock'' (m_text match) [] processedContent)
             else None)"

text \<open>\<open>/(?<!\$)\$([^\n$]+?)\$/g\<close>\<close>

definition inline_rule :: regex where
  "inline_rule =
     seqs [NotAfter (\<lambda>c. c = CHR ''$''), Chr CHR ''$'',
           Grp 1 (rplus Lazy (Cls (\<lambda>c. c \<noteq> newline \<and> c \<noteq> CHR ''$''))),
           Chr CHR ''$'']"

section \<open>Renderer options\<close>

text \<open>
  The fields of RendererOptions the overrides below read. \<open>block\<close> maps a block name
  (\<open>h1\<close>, \<open>latex\<close>, \<open>mermaid\<close>, \<open>code_pre\<close>, \<open>code\<close>, ...) to its style object. An
  absent \<open>base\<close>, \<open>block\<close> or \<open>codeTheme\<close> is \<open>None\<close>.
\<close>

record BaseOptions =
  themeColor :: "string option"

record 'n RendererOptions =
  base :: "BaseOptions option"
  block :: "(string \<rightharpoonup> 'n StyleOptions) option"
  codeTheme :: "string option"

text \<open>\<open>this.options.block?.[key] || {}\<close>\<close>

definition block_style :: "'n RendererOptions \<Rightarrow> string \<Rightarrow> 'n StyleOptions" where
  "block_style options key =
     (case block options of
        None \<Rightarrow> []
      | Some b \<Rightarrow> (case b key of None \<Rightarrow> [] | Some style \<Rightarrow> style))"

text \<open>\<open>this.options.base?.themeColor\<close>\<close>

definition base_themeColor :: "'n RendererOptions \<Rightarrow> 'n jsval" where
  "base_themeColor options =
     (case base options of
        None \<Rightarrow> JUndefined
      | Some b \<Rightarrow> (case themeColor b of None \<Rightarrow> JUndefined | Some c \<Rightarrow> JStr c))"

text \<open>The template fragment \<open>${styleStr ? ` style="${styleStr}"` : ""}\<close>.\<close>

definition style_attr :: "string \<Rightarrow> string" where
  \<open>style_attr styleStr = (if styleStr \<noteq> [] then '' style="'' @ styleStr @ ''"'' else [])\<close>

section \<open>Property order\<close>

text \<open>
  The order of the entries of an object: the keys that are array indices (the decimal
  numerals of 0 .. 2^32 - 2, without leading zeros) come first, in ascending order, then
  the other keys in the order of their creation. \<open>index_less\<close> compares two such
  numerals. \<open>define_prop\<close> gives a property its value and, when the key is new, its
  place; \<open>spread target source\<close> is the object literal \<open>{ ...target, ...source }\<close>,
  which defines the properties of \<open>source\<close> one by one.
\<close>

definition is_digit :: "char \<Rightarrow> bool" where
  "is_digit c = (48 \<le> (of_char c :: nat) \<and> (of_char c :: nat) \<le> 57)"

fun digits_less :: "string \<Rightarrow> string \<Rightarrow> bool" where
  "digits_less (x # xs) (y # ys) =
     ((of_char x :: nat) < of_char y \<or> (x = y \<and> digits_less xs ys))"
| "digits_less _ _ = False"

definition index_less :: "string \<Rightarrow> string \<Rightarrow> bool" where
  "index_less a b = (length a < length b \<or> (length a = length b \<and> digits_less a b))"

definition is_array_index :: "string \<Rightarrow> bool" where
  "is_array_index k =
     (k \<noteq> [] \<and> list_all is_digit k \<and> (if hd k = CHR ''0'' then k = ''0'' else True)
      \<and> index_less k ''4294967295'')"

fun define_prop :: "(string \<times> 'v) list \<Rightarrow> string \<Rightarrow> 'v \<Rightarrow> (string \<times> 'v) list" where
  "define_prop [] k v = [(k, v)]"
| "define_prop ((k', v') # es) k v =
     (if k' = k then (k, v) # es
      else if is_array_index k \<and> (if is_array_index k' then index_less k k' else True)
           then (k, v) # (k', v') # es
           else (k', v') # define_prop es k v)"

definition spread :: "(string \<times> 'v) list \<Rightarrow> (string \<times> 'v) list \<Rightarrow> (string \<times> 'v) list" where
  "spread target source = foldl (\<lambda>acc (k, v). define_prop acc k v) target source"

section \<open>Exceptions, effects and values at run time\<close>

text \<open>
  A call that can throw returns \<open>Inl\<close> of the error or \<open>Inr\<close> of its value. The
  overrides with a \<open>try\<close> block have effects besides their result: they call the formula
  renderer of the library and write to the console. Both are recorded, in the order in
  which they happen, in a value of type \<open>effects\<close> that every such override takes and
  returns; \<open>try { body } catch (error) { handler }\<close> is \<open>try_catch body handler\<close>.
\<close>

datatype js_error = Thrown string

record effects =
  console :: "(string \<times> js_error) list"
  katex_calls :: "(string \<times> bool) list"

definition try_catch ::
  "(effects \<Rightarrow> (js_error + 'a) \<times> effects) \<Rightarrow> (js_error \<Rightarrow> effects \<Rightarrow> 'a \<times> effects) \<Rightarrow>
   effects \<Rightarrow> 'a \<times> effects" where
  "try_catch body handler eff =
     (case body eff of
        (Inl error, eff') \<Rightarrow> handler error eff'
      | (Inr v, eff') \<Rightarrow> (v, eff'))"

text \<open>\<open>console.error(label, error)\<close>\<close>

definition console_error :: "string \<Rightarrow> js_error \<Rightarrow> effects \<Rightarrow> effects" where
  "console_error label error eff = eff\<lparr>console := console eff @ [(label, error)]\<rparr>"

text \<open>
  \<open>katex.renderToString(text, {displayMode, throwOnError: false})\<close> belongs to a
  library; it is the parameter \<open>katex\<close>, which takes the text and the display mode and
  returns the markup or throws.
\<close>

type_synonym katex_fn = "string \<Rightarrow> bool \<Rightarrow> js_error + string"

definition call_katex ::
  "katex_fn \<Rightarrow> string \<Rightarrow> bool \<Rightarrow> effects \<Rightarrow> (js_error + string) \<times> effects" where
  "call_katex katex text displayMode eff =
     (katex text displayMode, eff\<lparr>katex_calls := katex_calls eff @ [(text, displayMode)]\<rparr>)"

text \<open>
  The types of the source are erased when the program runs, so the options object that
  reaches an override can hold, in a style object, a value that is none of those
  StyleOptions declares. The model adds the kind of value whose conversion to a string
  throws: a Symbol. \<open>Plain\<close> embeds the values above.
\<close>

datatype 'n rtval = Plain "'n jsval" | JSymbol

type_synonym 'n RuntimeStyle = "(string \<times> 'n rtval) list"

text \<open>
  cssPropertiesToString on such a style object. The callback of \<open>.map\<close> returns the
  empty string for the media query key before it looks at the value, and throws a
  TypeError when the template literal converts a Symbol; \<open>.map\<close> stops at the first
  entry whose callback throws.
\<close>

definition css_declaration_runtime ::
  "('n \<Rightarrow> string) \<Rightarrow> string \<times> 'n rtval \<Rightarrow> js_error + string" where
  "css_declaration_runtime num e =
     (case e of (key, value) \<Rightarrow>
        if key = media_key then Inr []
        else (case value of
                JSymbol \<Rightarrow> Inl (Thrown ''TypeError: Cannot convert a Symbol value to a string'')
              | Plain v \<Rightarrow> Inr (css_declaration num (key, v))))"

fun map_throwing :: "('a \<Rightarrow> js_error + 'b) \<Rightarrow> 'a list \<Rightarrow> js_error + 'b list" where
  "map_throwing f [] = Inr []"
| "map_throwing f (x # xs) =
     (case f x of
        Inl error \<Rightarrow> Inl error
      | Inr y \<Rightarrow> (case map_throwing f xs of Inl error \<Rightarrow> Inl error | Inr ys \<Rightarrow> Inr (y # ys)))"

definition cssPropertiesToString_runtime ::
  "('n \<Rightarrow> string) \<Rightarrow> 'n RuntimeStyle \<Rightarrow> js_error + string" where
  "cssPropertiesToString_runtime num es =
     (case map_throwing (css_declaration_runtime num)
             (filter (\<lambda>(k, v). v \<noteq> Plain JUndefined \<and> v \<noteq> Plain JNull) es) of
        Inl error \<Rightarrow> Inl error
      | Inr ds \<Rightarrow> Inr (join '';'' (filter (\<lambda>s. s \<noteq> []) ds)))"

text \<open>
  The options object at run time, with the field the extension renderers read, and the
  options of the declared type seen as such an object.
\<close>

record 'n RuntimeOptions =
  runtime_block :: "(string \<rightharpoonup> 'n RuntimeStyle) option"



text \<open>\<open>this.options.block?.[key] || {}\<close>\<close>

definition runtime_block_style :: "'n RuntimeOptions \<Rightarrow> string \<Rightarrow> 'n RuntimeStyle" where
  "runtime_block_style options key =
     (case runtime_block options of
        None \<Rightarrow> []
      | Some b \<Rightarrow> (case b key of None \<Rightarrow> [] | Some style \<Rightarrow> style))"

section \<open>Renderer overrides\<close>

text \<open>
  The renderer of the \<open>latexBlock\<close> extension: the style object of its try block, the
  try block, the handler, the whole.
\<close>

definition latexBlock_style :: "'n RuntimeOptions \<Rightarrow> 'n RuntimeStyle" where
  "latexBlock_style options =
     (let latexStyle = runtime_block_style options ''latex''
      in define_prop (define_prop (define_prop latexStyle
           ''display'' (Plain (JStr ''block'')))
           ''margin'' (Plain (JStr ''1em 0'')))
           ''textAlign'' (Plain (JStr ''center'')))"

definition latexBlock_try ::
  "('n \<Rightarrow> string) \<Rightarrow> katex_fn \<Rightarrow> 'n RuntimeOptions \<Rightarrow> token \<Rightarrow> effects \<Rightarrow>
   (js_error + string) \<times> effects" where
  "latexBlock_try num katex options tok eff =
     (case cssPropertiesToString_runtime num (latexBlock_style options) of
        Inl error \<Rightarrow> (Inl error, eff)
      | Inr styleStr \<Rightarrow>
          (case call_katex katex (tok_text tok) True eff of
             (Inl error, eff') \<Rightarrow> (Inl error, eff')
           | (Inr rendered, eff') \<Rightarrow>
               (Inr (''<div'' @ style_attr styleStr @ ''>'' @ rendered @ ''</div>''), eff')))"

definition latexBlock_catch :: "token \<Rightarrow> js_error \<Rightarrow> effects \<Rightarrow> string \<times> effects" where
  "latexBlock_catch tok error eff = (raw tok, console_error ''LaTeX rendering error:'' error eff)"

definition latexBlock_renderer ::
  "('n \<Rightarrow> string) \<Rightarrow> katex_fn \<Rightarrow> 'n RuntimeOptions \<Rightarrow> token \<Rightarrow> effects \<Rightarrow> string \<times> effects" where
  "latexBlock_renderer num katex options tok =
     try_catch (latexBlock_try num katex options tok) (latexBlock_catch tok)"

text \<open>The renderer of the \<open>mermaidBlock\<close> extension.\<close>

definition mermaidBlock_style :: "'n RuntimeOptions \<Rightarrow> 'n RuntimeStyle" where
  "mermaidBlock_style options =
     (let mermaidStyle = runtime_block_style options ''mermaid''
      in define_prop (define_prop (define_prop (define_prop mermaidStyle
           ''display'' (Plain (JStr ''block'')))
           ''margin'' (Plain (JStr ''1em 0'')))
           ''textAlign'' (Plain (JStr ''center'')))
           ''background'' (Plain (JStr ''transparent'')))"

definition mermaidBlock_try ::
  "('n \<Rightarrow> string) \<Rightarrow> 'n RuntimeOptions \<Rightarrow> token \<Rightarrow> effects \<Rightarrow> (js_error + string) \<times> effects" where
  \<open>mermaidBlock_try num options tok eff =
     (case cssPropertiesToString_runtime num (mermaidBlock_style options) of
        Inl error \<Rightarrow> (Inl error, eff)
      | Inr styleStr \<Rightarrow>
          (Inr (''<div'' @ style_attr styleStr @ '' class="mermaid">'' @ tok_text tok @ ''</div>''), eff))\<close>

definition mermaidBlock_catch :: "token \<Rightarrow> js_error \<Rightarrow> effects \<Rightarrow> string \<times> effects" where
  \<open>mermaidBlock_catch tok error eff =
     (''<pre><code class="language-mermaid">'' @ tok_text tok @ ''</code></pre>'',
      console_error ''Mermaid rendering error:'' error eff)\<close>

definition mermaidBlock_renderer ::
  "('n \<Rightarrow> string) \<Rightarrow> 'n RuntimeOptions \<Rightarrow> token \<Rightarrow> effects \<Rightarrow> string \<times> effects" where
  "mermaidBlock_renderer num options tok =
     try_catch (mermaidBlock_try num options tok) (mermaidBlock_catch tok)"

text \<open>
  \<open>renderer.text\<close>: every inline formula \<open>$...$\<close> of the token's text is replaced by
  its markup, or by itself when the formula renderer throws.
\<close>

definition inline_formula :: "katex_fn \<Rightarrow> string \<Rightarrow> string \<Rightarrow> effects \<Rightarrow> string \<times> effects" where
  "inline_formula katex match inline =
     try_catch (call_katex katex (trim inline) False)
       (\<lambda>error eff. (match, console_error ''LaTeX inline rendering error:'' error eff))"

definition renderer_text :: "katex_fn \<Rightarrow> string \<Rightarrow> effects \<Rightarrow> string \<times> effects" where
  "renderer_text katex token_text = replace_all inline_rule (inline_formula katex) [] token_text"

text \<open>
  \<open>renderer.heading\<close>. The inline content comes from the library
  (\<open>marked.Parser.parseInline(marked.Lexer.lexInline(text), {renderer})\<close>), the parameter
  \<open>parseInline\<close>. The depth is a whole number, printed in decimal.
\<close>

record Heading =
  heading_text :: string
  depth :: nat

definition renderer_heading ::
  "('n \<Rightarrow> string) \<Rightarrow> (string \<Rightarrow> string) \<Rightarrow> 'n RendererOptions \<Rightarrow> Heading \<Rightarrow> string" where
  "renderer_heading num parseInline options tok =
     (let headingKey = ''h'' @ digits (depth tok);
          headingStyle = block_style options headingKey;
          style = set_prop headingStyle ''color'' (base_themeColor options);
          styleStr = cssPropertiesToString num (Some style);
          content = parseInline (heading_text tok)
      in ''<h'' @ digits (depth tok) @ style_attr styleStr @ ''>'' @ content @
         ''</h'' @ digits (depth tok) @ ''>'')"

text \<open>
  \<open>renderer.code\<close>. It reads properties of style objects, tests values for truth
  (\<open>||\<close>, \<open>!\<close>) and spreads one object into another. A number is falsy when it is zero
  (NaN is not a value of the model).
\<close>

definition get_prop :: "'n StyleOptions \<Rightarrow> string \<Rightarrow> 'n jsval" where
  "get_prop es k = (case map_of es k of None \<Rightarrow> JUndefined | Some v \<Rightarrow> v)"

fun truthy :: "('n::zero) jsval \<Rightarrow> bool" where
  "truthy JUndefined = False"
| "truthy JNull = False"
| "truthy (JStr s) = (s \<noteq> [])"
| "truthy (JNum n) = (n \<noteq> 0)"
| "truthy (JObj es) = True"

definition js_or :: "('n::zero) jsval \<Rightarrow> 'n jsval \<Rightarrow> 'n jsval" where
  "js_or a b = (if truthy a then a else b)"

record Code =
  code_text :: string
  lang :: "string option"

definition monospace :: string where
  "monospace = ''Menlo, Monaco, Consolas, monospace''"

definition btnBaseStyle :: string where
  "btnBaseStyle = ''width: 12px; height: 12px; border-radius: 50%; display: inline-block;''"

text \<open>
  \<open>highlightCode\<close> comes from a module that is not among the sources and
  \<open>toUpperCase\<close> from the language; both are parameters. \<open>highlightCode\<close> takes the
  text, the language, the theme id and the \<open>forceDarkPalette\<close> option.
\<close>

definition renderer_code ::
  "(('n::zero) \<Rightarrow> string) \<Rightarrow> (string \<Rightarrow> string) \<Rightarrow> CodeTheme list \<Rightarrow>
   (string \<Rightarrow> string \<Rightarrow> string \<Rightarrow> bool \<Rightarrow> string) \<Rightarrow> 'n RendererOptions \<Rightarrow> Code \<Rightarrow> string" where
  \<open>renderer_code num toUpperCase codeThemes highlightCode options tok =
     (let theme_name = (case codeTheme options of
                          None \<Rightarrow> ''github''
                        | Some t \<Rightarrow> if t \<noteq> [] then t else ''github'');
          forceDarkPalette = isLightCodeTheme codeThemes theme_name;
          highlighted = highlightCode (code_text tok)
                          (case lang tok of None \<Rightarrow> [] | Some l \<Rightarrow> l)
                          theme_name forceDarkPalette;
          langLabel = (case lang tok of
                         None \<Rightarrow> ''CODE''
                       | Some l \<Rightarrow> if l \<noteq> [] then toUpperCase l else ''CODE'');
          codePreOptions = block_style options ''code_pre'';
          margin = get_prop codePreOptions ''margin'';
          marginTop = get_prop codePreOptions ''marginTop'';
          marginRight = get_prop codePreOptions ''marginRight'';
          marginBottom = get_prop codePreOptions ''marginBottom'';
          marginLeft = get_prop codePreOptions ''marginLeft'';
          boxShadow = get_prop codePreOptions ''boxShadow'';
          fontFamily = get_prop codePreOptions ''fontFamily'';
          codePreColor = get_prop codePreOptions ''color'';
          preStyleOptions =
            filter (\<lambda>(k, v). k \<notin> set [''margin'', ''marginTop'', ''marginRight'', ''marginBottom'',
                                         ''marginLeft'', ''background'', ''backgroundColor'', ''border'',
                                         ''borderRadius'', ''boxShadow'', ''fontFamily'', ''color''])
              codePreOptions;
          containerStyleObj0 =
            [(''borderRadius'', JStr ''10px''),
             (''overflow'', JStr ''hidden''),
             (''background'', JStr ''linear-gradient(145deg, #1e1e1e, #2d2d2d)''),
             (''boxShadow'',
                js_or boxShadow (JStr ''0 6px 24px rgba(0,0,0,0.25), 0 0 0 1px rgba(255,255,255,0.05)'')),
             (''fontFamily'', js_or fontFamily (JStr monospace)),
             (''margin'', margin),
             (''marginTop'', marginTop),
             (''marginRight'', marginRight),
             (''marginBottom'', marginBottom),
             (''marginLeft'', marginLeft)];
          containerStyleObj =
            (if \<not> truthy margin \<and> \<not> truthy marginTop \<and> \<not> truthy marginRight \<and>
                \<not> truthy marginBottom \<and> \<not> truthy marginLeft
             then set_prop containerStyleObj0 ''margin'' (JStr ''1em 0'')
             else containerStyleObj0);
          preStyleObj =
            set_prop (set_prop (set_prop
              (spread
                 [(''margin'', JStr ''0''),
                  (''padding'', JStr ''16px 20px''),
                  (''overflowX'', JStr ''auto''),
                  (''fontFamily'', js_or fontFamily (JStr monospace)),
                  (''fontSize'', JStr ''13px''),
                  (''lineHeight'', JStr ''1.6'')]
                 preStyleOptions)
              ''background'' (JStr ''transparent''))
              ''borderRadius'' (JStr ''0''))
              ''border'' (JStr ''none'');
          codeStyleOptions = block_style options ''code'';
          codeStyleObj =
            spread
              [(''fontFamily'', js_or fontFamily (JStr monospace)),
               (''fontSize'',
                  js_or (js_or (get_prop codeStyleOptions ''fontSize'') (get_prop preStyleObj ''fontSize''))
                        (JStr ''13px'')),
               (''lineHeight'',
                  js_or (js_or (get_prop codeStyleOptions ''lineHeight'')
                               (get_prop preStyleObj ''lineHeight''))
                        (JStr ''1.6'')),
               (''color'',
                  js_or (js_or (get_prop codeStyleOptions ''color'')
                               (if \<not> forceDarkPalette then codePreColor else JUndefined))
                        (JStr (if forceDarkPalette then ''#f8f8f2'' else ''#e0e0e0'')))]
              codeStyleOptions;
          containerStyle = cssPropertiesToString num (Some containerStyleObj);
          preStyle = cssPropertiesToString num (Some preStyleObj);
          codeStyle = cssPropertiesToString num (Some codeStyleObj);
          headerStyle =
            join ''; ''
              [''display: flex'',
               ''align-items: center'',
               ''justify-content: space-between'',
               ''padding: 12px 16px'',
               ''background: linear-gradient(180deg, #3a3a3a 0%, #2a2a2a 100%)'',
               ''border-bottom: 1px solid rgba(0,0,0,0.3)'',
               ''font-family: '' @ toString num (js_or fontFamily (JStr monospace))];
          controlsStyle = ''display: flex; gap: 8px;'';
          closeBtnStyle = btnBaseStyle @ '' background: linear-gradient(135deg, #ff605c 0%, #d94a46 100%);'';
          minBtnStyle = btnBaseStyle @ '' background: linear-gradient(135deg, #ffbd44 0%, #d9a038 100%);'';
          maxBtnStyle = btnBaseStyle @ '' background: linear-gradient(135deg, #00ca4e 0%, #00a63e 100%);'';
          langStyle =
            ''font-size: 12px; font-weight: 600; color: #888; text-transform: uppercase; letter-spacing: 0.5px;''
      in ''<section style="'' @ containerStyle @ ''"><section style="'' @ headerStyle @
         ''"><section style="'' @ controlsStyle @ ''"><span style="'' @ closeBtnStyle @
         ''"></span><span style="'' @ minBtnStyle @ ''"></span><span style="'' @ maxBtnStyle @
         ''"></span></section><span style="'' @ langStyle @ ''">'' @ langLabel @
         ''</span></section><pre style="'' @ preStyle @ ''"><code style="'' @ codeStyle @ ''">'' @
         highlighted @ ''</code></pre></section>'')\<close>

section \<open>Registration of the extensions\<close>

text \<open>
  An extension as the source hands it to \<open>marked.use\<close>: name, level, start, tokenizer
  and renderer. The start of the LaTeX extension is the index of \<open>/^\$\$/\<close>, that of
  the Mermaid extension the index of
  \<open>/^```(?:mermaid\s*$|[\s\n]*pie\s+|[\s\n]*graph\s+|...)/\<close>.
\<close>

record extension =
  ext_name :: string
  ext_level :: string
  ext_start :: "string \<Rightarrow> nat option"
  ext_tokenizer :: "string \<Rightarrow> token option"
  ext_renderer :: "token \<Rightarrow> effects \<Rightarrow> string \<times> effects"

definition latex_start_rule :: regex where
  "latex_start_rule = seqs [Bol, str ''$$'']"

definition mermaid_start_rule :: regex where
  "mermaid_start_rule =
     seqs [Bol, str ''```'',
           alts [seqs [str ''mermaid'', Star Greedy space, Eol],
                 seqs [Star Greedy space, str ''pie'', rplus Greedy space],
                 seqs [Star Greedy space, str ''graph'', rplus Greedy space],
                 seqs [Star Greedy space, str ''sequenceDiagram'', rplus Greedy space],
                 seqs [Star Greedy space, str ''gantt'', rplus Greedy space],
                 seqs [Star Greedy space, str ''classDiagram'', rplus Greedy space],
                 seqs [Star Greedy space, str ''flowchart'', rplus Greedy space]]]"

definition latexBlockTokenizer ::
  "('n \<Rightarrow> string) \<Rightarrow> katex_fn \<Rightarrow> 'n RuntimeOptions \<Rightarrow> extension" where
  "latexBlockTokenizer num katex options =
     \<lparr>ext_name = ''latexBlock'',
      ext_level = ''block'',
      ext_start = (\<lambda>src. map_option m_index (exec latex_start_rule src)),
      ext_tokenizer = latexBlock_tokenizer,
      ext_renderer = latexBlock_renderer num katex options\<rparr>"

definition mermaidBlockTokenizer :: "('n \<Rightarrow> string) \<Rightarrow> 'n RuntimeOptions \<Rightarrow> extension" where
  "mermaidBlockTokenizer num options =
     \<lparr>ext_name = ''mermaidBlock'',
      ext_level = ''block'',
      ext_start = (\<lambda>src. map_option m_index (exec mermaid_start_rule src)),
      ext_tokenizer = mermaidBlock_tokenizer,
      ext_renderer = mermaidBlock_renderer num options\<rparr>"

text \<open>
  The \<open>marked\<close> object is one instance shared by the whole program; its state is the
  list of the extensions registered so far, the latest first. \<open>marked.use\<close> and the
  dispatch of a custom token to the renderer registered under the token's type are the
  library's: \<open>use\<close> puts each extension in front of the earlier ones, and the renderer
  registered last under a name is the one that runs.
\<close>

type_synonym marked_state = "extension list"

definition marked_use :: "extension list \<Rightarrow> marked_state \<Rightarrow> marked_state" where
  "marked_use extensions m = rev extensions @ m"

definition marked_render :: "marked_state \<Rightarrow> token \<Rightarrow> effects \<Rightarrow> (string \<times> effects) option" where
  "marked_render m tok eff =
     map_option (\<lambda>e. ext_renderer e tok eff) (find (\<lambda>e. ext_name e = tok_type tok) m)"

text \<open>
  The constructor of MarkdownRenderer: it keeps the options, installs the overrides and
  registers the two extensions. It returns the instance and the new state of \<open>marked\<close>.
\<close>

record 'n MarkdownRenderer =
  renderer_options :: "'n RuntimeOptions"

definition initializeLatexExtension ::
  "('n \<Rightarrow> string) \<Rightarrow> katex_fn \<Rightarrow> 'n RuntimeOptions \<Rightarrow> marked_state \<Rightarrow> marked_state" where
  "initializeLatexExtension num katex options m =
     marked_use [latexBlockTokenizer num katex options] m"

definition initializeMermaidExtension ::
  "('n \<Rightarrow> string) \<Rightarrow> 'n RuntimeOptions \<Rightarrow> marked_state \<Rightarrow> marked_state" where
  "initializeMermaidExtension num options m = marked_use [mermaidBlockTokenizer num options] m"

definition MarkdownRenderer_constructor ::
  "('n \<Rightarrow> string) \<Rightarrow> katex_fn \<Rightarrow> 'n RuntimeOptions \<Rightarrow> marked_state \<Rightarrow>
   'n MarkdownRenderer \<times> marked_state" where
  "MarkdownRenderer_constructor num katex options m =
     (\<lparr>renderer_options = options\<rparr>,
      initializeMermaidExtension num options (initializeLatexExtension num katex options m))"

section \<open>Properties\<close>

lemma css_declaration_nonempty:
  "key \<noteq> media_key \<Longrightarrow> css_declaration num (key, v) \<noteq> []"
  by (simp add: css_declaration_def Let_def)

lemma css_declaration_media:
  "css_declaration num (media_key, v) = []"
  by (simp add: css_declaration_def)

lemma css_declarations_filter:
  "css_declarations num es =
     map (css_declaration num)
       (filter (\<lambda>(k, v). v \<noteq> JUndefined \<and> v \<noteq> JNull \<and> k \<noteq> media_key) es)"
proof (induction es)
  case Nil
  show ?case by (simp add: css_declarations_def)
next
  case (Cons e es)
  obtain k v where e: "e = (k, v)" by (cases e)
  show ?case
  proof (cases "k = media_key")
    case True
    with Cons e show ?thesis
      by (simp add: css_declarations_def css_declaration_media)
  next
    case False
    with Cons e show ?thesis
      by (simp add: css_declarations_def css_declaration_nonempty)
  qed
qed

lemma css_declaration_value:
  "k \<noteq> media_key \<Longrightarrow>
   css_declaration num (k, v) =
     toLowerCase (hyphenate k) @ '': '' @
       (case v of
          JNum n \<Rightarrow> num n @ (if includes_str (toLowerCase (hyphenate k)) ''line-height'' then [] else ''px'')
        | _ \<Rightarrow> toString num v)"
  by (cases v) (simp_all add: css_declaration_def Let_def is_number_def)

text \<open>
  C4, as amended. For every style object, cssPropertiesToString returns the declarations
  of the entries whose value is neither \<open>undefined\<close> nor \<open>null\<close> and whose key is not
  \<open>@media (max-width: 768px)\<close>, each as the kebab-case key, a colon and a space, and the
  value (a number is followed by \<open>px\<close> unless the kebab-case key contains
  \<open>line-height\<close>), joined by \<open>;\<close> in the order of the entries. For the empty object
  and for an absent one the result is the empty string.
\<close>

theorem cssPropertiesToString_entries:
  "cssPropertiesToString num None = [] \<and>
   cssPropertiesToString num (Some []) = [] \<and>
   cssPropertiesToString num (Some es) =
     join '';''
       (map (\<lambda>(k, v). toLowerCase (hyphenate k) @ '': '' @
               (case v of
                  JNum n \<Rightarrow> num n @ (if includes_str (toLowerCase (hyphenate k)) ''line-height''
                                      then [] else ''px'')
                | _ \<Rightarrow> toString num v))
          (filter (\<lambda>(k, v). v \<noteq> JUndefined \<and> v \<noteq> JNull \<and> k \<noteq> media_key) es))"
proof -
  have "map (css_declaration num)
          (filter (\<lambda>(k, v). v \<noteq> JUndefined \<and> v \<noteq> JNull \<and> k \<noteq> media_key) es) =
        map (\<lambda>(k, v). toLowerCase (hyphenate k) @ '': '' @
               (case v of
                  JNum n \<Rightarrow> num n @ (if includes_str (toLowerCase (hyphenate k)) ''line-height''
                                      then [] else ''px'')
                | _ \<Rightarrow> toString num v))
          (filter (\<lambda>(k, v). v \<noteq> JUndefined \<and> v \<noteq> JNull \<and> k \<noteq> media_key) es)"
    by (rule map_cong) (auto simp: css_declaration_value)
  then have "cssPropertiesToString num (Some es) =
     join '';''
       (map (\<lambda>(k, v). toLowerCase (hyphenate k) @ '': '' @
               (case v of
                  JNum n \<Rightarrow> num n @ (if includes_str (toLowerCase (hyphenate k)) ''line-height''
                                      then [] else ''px'')
                | _ \<Rightarrow> toString num v))
          (filter (\<lambda>(k, v). v \<noteq> JUndefined \<and> v \<noteq> JNull \<and> k \<noteq> media_key) es))"
    by (simp only: cssPropertiesToString_def css_declarations_filter option.case)
  moreover have "cssPropertiesToString num None = []"
    by (simp add: cssPropertiesToString_def)
  moreover have "cssPropertiesToString num (Some []) = []"
    by (simp add: cssPropertiesToString_def css_declarations_def)
  ultimately show ?thesis by blast
qed

text \<open>
  C4 as stated fails on an object with a media query entry and a number: the media query
  entry has a defined value and does not appear, and the number 12 appears as \<open>12px\<close>.
\<close>

theorem cssPropertiesToString_media_counterexample:
  "cssPropertiesToString digits
     (Some [(''@media (max-width: 768px)'', JStr ''x''), (''fontSize'', JNum 12)]) = ''font-size: 12px''
   \<and> \<not> includes_str
       (cssPropertiesToString digits
          (Some [(''@media (max-width: 768px)'', JStr ''x''), (''fontSize'', JNum 12)]))
       ''@media (max-width: 768px): x''
   \<and> \<not> includes_str
       (cssPropertiesToString digits
          (Some [(''@media (max-width: 768px)'', JStr ''x''), (''fontSize'', JNum 12)]))
       ''font-size: 12;''"
  by code_simp

lemma css_declarations_drop_media:
  "css_declarations num (filter (\<lambda>e. fst e \<noteq> media_key) es) = css_declarations num es"
  by (induction es) (auto simp: css_declarations_filter)

text \<open>
  C8. The entries of the key \<open>@media (max-width: 768px)\<close> are dropped: the output is
  that of the object without them, and such an entry adds nothing to the declarations
  around it. A numeric value of any other key is declared with the suffix \<open>px\<close> when
  the kebab-case key does not contain \<open>line-height\<close>, and without a unit when it does.
\<close>

theorem cssPropertiesToString_media_px:
  "cssPropertiesToString num (Some (filter (\<lambda>e. fst e \<noteq> media_key) es)) =
     cssPropertiesToString num (Some es)
   \<and> css_declarations num (es1 @ [(media_key, v)] @ es2) =
       css_declarations num es1 @ css_declarations num es2
   \<and> (k \<noteq> media_key \<longrightarrow>
        css_declarations num (es1 @ [(k, JNum n)] @ es2) =
          css_declarations num es1 @
          [toLowerCase (hyphenate k) @ '': '' @ num n @
             (if includes_str (toLowerCase (hyphenate k)) ''line-height'' then [] else ''px'')] @
          css_declarations num es2)"
proof -
  have a: "cssPropertiesToString num (Some (filter (\<lambda>e. fst e \<noteq> media_key) es)) =
     cssPropertiesToString num (Some es)"
    by (simp add: cssPropertiesToString_def css_declarations_drop_media)
  have b: "css_declarations num (es1 @ [(media_key, v)] @ es2) =
       css_declarations num es1 @ css_declarations num es2"
    by (simp add: css_declarations_filter)
  have c: "css_declarations num (es1 @ [(k, JNum n)] @ es2) =
          css_declarations num es1 @
          [toLowerCase (hyphenate k) @ '': '' @ num n @
             (if includes_str (toLowerCase (hyphenate k)) ''line-height'' then [] else ''px'')] @
          css_declarations num es2" if "k \<noteq> media_key"
    using that by (simp add: css_declarations_filter css_declaration_value)
  from a b c show ?thesis by blast
qed

text \<open>The same on a concrete object with a font size, a media query and a line height.\<close>

theorem cssPropertiesToString_media_px_witness:
  "cssPropertiesToString digits
     (Some [(''fontSize'', JNum 14), (''@media (max-width: 768px)'', JObj [(''fontSize'', JNum 12)]),
            (''lineHeight'', JNum 2)]) = ''font-size: 14px;line-height: 2''
   \<and> css_declarations digits
        [(''margin'', JStr ''0''), (''@media (max-width: 768px)'', JObj [(''fontSize'', JNum 12)]),
         (''lineHeight'', JNum 2)] = [''margin: 0'', ''line-height: 2'']
   \<and> css_declarations digits
        [(''margin'', JStr ''0''), (''fontSize'', JNum 14), (''lineHeight'', JNum 2)] =
       [''margin: 0'', ''font-size: 14px'', ''line-height: 2'']"
proof -
  have k: "''fontSize'' \<noteq> media_key"
    by (simp add: media_key_def)
  have m: "media_key = ''@media (max-width: 768px)''"
    by (simp add: media_key_def)
  have f: "filter (\<lambda>e. fst e \<noteq> media_key)
          [(''fontSize'', JNum 14), (''@media (max-width: 768px)'', JObj [(''fontSize'', JNum 12)]),
           (''lineHeight'', JNum (2::nat))] = [(''fontSize'', JNum 14), (''lineHeight'', JNum 2)]"
    by (simp add: media_key_def)
  have c1: "cssPropertiesToString digits (Some [(''fontSize'', JNum 14), (''lineHeight'', JNum 2)])
    = ''font-size: 14px;line-height: 2''"
    by code_simp
  have c2: "css_declarations digits [(''margin'', JStr ''0'')] = [''margin: 0'']"
    by code_simp
  have c3: "css_declarations digits [(''lineHeight'', JNum 2)] = [''line-height: 2'']"
    by code_simp
  have c4: "toLowerCase (hyphenate ''fontSize'') = ''font-size''"
    by code_simp
  have c5: "\<not> includes_str ''font-size'' ''line-height''"
    by code_simp
  have c6: "digits 14 = ''14''"
    by code_simp
  show ?thesis
    using cssPropertiesToString_media_px
      [where num = digits
         and es = "[(''fontSize'', JNum 14),
                    (''@media (max-width: 768px)'', JObj [(''fontSize'', JNum 12)]),
                    (''lineHeight'', JNum 2)]"
         and ?es1.0 = "[(''margin'', JStr ''0'')]"
         and v = "JObj [(''fontSize'', JNum 12)]"
         and ?es2.0 = "[(''lineHeight'', JNum 2)]"
         and k = "''fontSize''" and n = 14]
      k
    by (simp add: f c1 c2 c3 c4 c5 c6 m)
qed

text \<open>
  C10. For a theme id that is not the id of any entry of \<open>codeThemes\<close>,
  getCodeThemeStyles returns the empty style object, getTokenStyles the empty string and
  isLightCodeTheme false.
\<close>

theorem theme_lookup_unknown:
  assumes "th \<notin> theme_id ` set codeThemes"
  shows "getCodeThemeStyles codeThemes th = []
       \<and> getTokenStyles codeThemes th tokenType forceDarkPalette = []
       \<and> \<not> isLightCodeTheme codeThemes th"
proof -
  from assms have "find (\<lambda>t. theme_id t = th) codeThemes = None"
    by (auto simp: find_None_iff)
  then show ?thesis
    by (simp add: getCodeThemeStyles_def getTokenStyles_def isLightCodeTheme_def)
qed

text \<open>The id \<open>dracula\<close> in a table that only holds \<open>github\<close>.\<close>

theorem theme_lookup_unknown_witness:
  "''dracula'' \<notin> theme_id ` set [\<lparr>theme_id = ''github'', theme = \<lparr>background = ''#ffffff'', text_color = ''#24292e'', token_colors = []\<rparr>\<rparr>]
   \<and> getCodeThemeStyles [\<lparr>theme_id = ''github'', theme = \<lparr>background = ''#ffffff'', text_color = ''#24292e'', token_colors = []\<rparr>\<rparr>] ''dracula'' = ([] :: nat StyleOptions)
   \<and> getTokenStyles [\<lparr>theme_id = ''github'', theme = \<lparr>background = ''#ffffff'', text_color = ''#24292e'', token_colors = []\<rparr>\<rparr>] ''dracula'' ''keyword'' True = []
   \<and> \<not> isLightCodeTheme [\<lparr>theme_id = ''github'', theme = \<lparr>background = ''#ffffff'', text_color = ''#24292e'', token_colors = []\<rparr>\<rparr>] ''dracula''"
proof -
  have h: "''dracula'' \<notin> theme_id ` set [\<lparr>theme_id = ''github'', theme = \<lparr>background = ''#ffffff'', text_color = ''#24292e'', token_colors = []\<rparr>\<rparr>]"
    by simp
  from theme_lookup_unknown [OF h, of "''keyword''" True, where ?'a = nat] h show ?thesis by blast
qed

lemma startsWith_iff: "startsWith s p \<longleftrightarrow> (\<exists>b. s = p @ b)"
  unfolding startsWith_def
  by (metis append_eq_conv_conj append_take_drop_id)

lemma startsWith_append [simp]: "startsWith (p @ b) p"
  by (simp add: startsWith_def)

lemma matches_str:
  "matches (str p) (seen, todo, caps) =
     (if startsWith todo p then [(rev p @ seen, drop (length p) todo, caps)] else [])"
proof (induction p arbitrary: seen todo)
  case Nil
  show ?case by (simp add: str_def startsWith_def)
next
  case (Cons c p)
  have step: "str (c # p) = Seq (Chr c) (str p)" by (simp add: str_def)
  show ?case
  proof (cases todo)
    case Nil
    then show ?thesis by (simp add: step startsWith_def)
  next
    case (Cons x xs)
    then show ?thesis
      using Cons.IH [of "x # seen" xs]
      by (auto simp: step startsWith_def)
  qed
qed

lemma upt0_Suc: "[0..<Suc n] = 0 # map Suc [0..<n]"
  by (simp only: upt_conv_Cons zero_less_Suc map_Suc_upt)

lemma matches_star_lazy_any:
  "matches (Star Lazy any_char) (seen, todo, caps) =
     map (\<lambda>k. (rev (take k todo) @ seen, drop k todo, caps)) [0..<Suc (length todo)]"
proof (induction todo arbitrary: seen)
  case Nil
  show ?case by (simp add: any_char_def matches_star)
next
  case (Cons x xs)
  have "matches (Star Lazy any_char) (seen, x # xs, caps) =
          (seen, x # xs, caps) # matches (Star Lazy any_char) (x # seen, xs, caps)"
    by (simp add: any_char_def matches_star)
  also have "\<dots> = (seen, x # xs, caps) #
      map (\<lambda>k. (rev (take k xs) @ x # seen, drop k xs, caps)) [0..<Suc (length xs)]"
    by (simp only: Cons.IH)
  also have "\<dots> = map (\<lambda>k. (rev (take k (x # xs)) @ seen, drop k (x # xs), caps))
                      [0..<Suc (length (x # xs))]"
    by (simp del: upt_Suc add: upt0_Suc comp_def)
  finally show ?case .
qed

lemma exec_from_anchored:
  "seen \<noteq> [] \<Longrightarrow> exec_from (Seq Bol r) seen todo = None"
  by (induction todo arbitrary: seen) auto

lemma exec_anchored:
  "exec (Seq Bol r) src =
     (case matches r ([], src, []) of
        [] \<Rightarrow> None
      | (seen', todo', caps') # _ \<Rightarrow>
          Some \<lparr>m_index = 0, m_text = rev seen', m_caps = caps', m_rest = todo'\<rparr>)"
  by (cases src) (auto simp: exec_def exec_from_anchored split: list.splits)

lemma concat_map_if:
  "concat (map (\<lambda>k. if Q k then [h k] else []) ks) = map h (filter Q ks)"
  by (induction ks) auto

lemma find_as_filter:
  "find Q ks = (case filter Q ks of [] \<Rightarrow> None | k # _ \<Rightarrow> Some k)"
  by (induction ks) auto

lemma matches_latex_body:
  "matches (Seq (str ''$$'') (Seq (Grp 1 (Star Lazy any_char)) (Seq (str ''$$'') Eps))) ([], src, []) =
     (if startsWith src ''$$''
      then map (\<lambda>k. (''$$'' @ rev (take k (drop 2 src)) @ ''$$'', drop (k + 2) (drop 2 src),
                      [(1, take k (drop 2 src))]))
             (filter (\<lambda>k. startsWith (drop k (drop 2 src)) ''$$'') [0..<Suc (length (drop 2 src))])
      else [])"
proof (cases "startsWith src ''$$''")
  case False
  then show ?thesis by (simp add: matches_str)
next
  case True
  have "matches (Seq (str ''$$'') (Seq (Grp 1 (Star Lazy any_char)) (Seq (str ''$$'') Eps))) ([], src, []) =
     concat (map (\<lambda>k. if startsWith (drop k (drop 2 src)) ''$$''
                       then [(''$$'' @ rev (take k (drop 2 src)) @ ''$$'', drop (k + 2) (drop 2 src),
                              [(1, take k (drop 2 src))])]
                       else [])
               [0..<Suc (length (drop 2 src))])"
    using True
    apply (simp add: matches_str matches_star_lazy_any comp_def del: upt_Suc cong: map_cong)
    apply (simp add: numeral_2_eq_2 del: upt_Suc cong: if_cong)
    done
  then show ?thesis
    using True by (simp only: concat_map_if if_True)
qed

lemma find_upt_Some:
  "find Q [0..<n] = Some k \<longleftrightarrow> k < n \<and> Q k \<and> (\<forall>j<k. \<not> Q j)"
  by (auto simp: find_Some_iff)

lemma find_upt_None:
  "find Q [0..<n] = None \<longleftrightarrow> (\<forall>k<n. \<not> Q k)"
  by (auto simp: find_None_iff)

lemma startsWith_drop_iff:
  "k \<le> length s \<and> startsWith (drop k s) p \<longleftrightarrow> (\<exists>a b. s = a @ p @ b \<and> length a = k)"
proof
  assume h: "k \<le> length s \<and> startsWith (drop k s) p"
  then obtain b where "drop k s = p @ b" by (auto simp: startsWith_iff)
  then have "s = take k s @ p @ b" by (metis append_take_drop_id)
  moreover have "length (take k s) = k" using h by simp
  ultimately show "\<exists>a b. s = a @ p @ b \<and> length a = k" by blast
next
  assume "\<exists>a b. s = a @ p @ b \<and> length a = k"
  then obtain a b where "s = a @ p @ b" "length a = k" by blast
  then show "k \<le> length s \<and> startsWith (drop k s) p" by (auto simp: startsWith_iff)
qed

lemma exec_latex_rule:
  "exec latex_rule src =
     (if startsWith src ''$$''
      then map_option
             (\<lambda>k. \<lparr>m_index = 0, m_text = ''$$'' @ take k (drop 2 src) @ ''$$'',
                    m_caps = [(1, take k (drop 2 src))], m_rest = drop (k + 2) (drop 2 src)\<rparr>)
             (find (\<lambda>k. startsWith (drop k (drop 2 src)) ''$$'') [0..<Suc (length (drop 2 src))])
      else None)"
proof -
  have r: "latex_rule = Seq Bol (Seq (str ''$$'') (Seq (Grp 1 (Star Lazy any_char)) (Seq (str ''$$'') Eps)))"
    by (simp add: latex_rule_def seqs_def)
  show ?thesis
    unfolding r exec_anchored matches_latex_body find_as_filter
    by (simp split: list.splits del: upt_Suc)
qed

lemma latexBlock_tokenizer_find:
  "latexBlock_tokenizer src =
     (if startsWith src ''$$''
      then map_option
             (\<lambda>k. Token ''latexBlock'' (''$$'' @ take k (drop 2 src) @ ''$$'') [] (trim (take k (drop 2 src))))
             (find (\<lambda>k. startsWith (drop k (drop 2 src)) ''$$'') [0..<Suc (length (drop 2 src))])
      else None)"
  by (simp add: latexBlock_tokenizer_def exec_latex_rule match_group_def Let_def split: option.splits del: upt_Suc)

lemma latexBlock_tokenizer_Some_iff:
  "latexBlock_tokenizer src = Some tok \<longleftrightarrow>
     (\<exists>a b. src = ''$$'' @ a @ ''$$'' @ b
        \<and> (\<forall>a' b'. src = ''$$'' @ a' @ ''$$'' @ b' \<longrightarrow> length a \<le> length a')
        \<and> tok = Token ''latexBlock'' (''$$'' @ a @ ''$$'') [] (trim a))"
  (is "?L \<longleftrightarrow> ?R")
proof
  let ?rest = "drop 2 src"
  let ?Q = "\<lambda>k. startsWith (drop k ?rest) ''$$''"
  assume ?L
  then have sw: "startsWith src ''$$''"
    by (auto simp: latexBlock_tokenizer_find split: if_splits)
  then have src: "src = ''$$'' @ ?rest"
    by (auto simp: startsWith_iff)
  from \<open>?L\<close> sw obtain k where
    k: "find ?Q [0..<Suc (length ?rest)] = Some k"
    and tok: "tok = Token ''latexBlock'' (''$$'' @ take k ?rest @ ''$$'') [] (trim (take k ?rest))"
    by (auto simp: latexBlock_tokenizer_find simp del: upt_Suc)
  from k have kn: "k \<le> length ?rest" and qk: "?Q k" and least: "\<forall>j<k. \<not> ?Q j"
    by (auto simp: find_upt_Some simp del: upt_Suc)
  from kn qk obtain a b where ab: "?rest = a @ ''$$'' @ b" "length a = k"
    using startsWith_drop_iff [of k ?rest "''$$''"] by blast
  then have a: "take k ?rest = a" by simp
  have "src = ''$$'' @ a @ ''$$'' @ b"
    using src ab by simp
  moreover have "length a \<le> length a'" if "src = ''$$'' @ a' @ ''$$'' @ b'" for a' b'
  proof (rule ccontr)
    assume "\<not> length a \<le> length a'"
    then have lt: "length a' < k" using ab by simp
    from that have "?rest = a' @ ''$$'' @ b'" by simp
    then have "?Q (length a')"
      using startsWith_drop_iff [of "length a'" ?rest "''$$''"] by blast
    with least lt show False by blast
  qed
  moreover have "tok = Token ''latexBlock'' (''$$'' @ a @ ''$$'') [] (trim a)"
    using tok a by simp
  ultimately show ?R by blast
next
  let ?rest = "drop 2 src"
  let ?Q = "\<lambda>k. startsWith (drop k ?rest) ''$$''"
  assume ?R
  then obtain a b where src: "src = ''$$'' @ a @ ''$$'' @ b"
    and least: "\<And>a' b'. src = ''$$'' @ a' @ ''$$'' @ b' \<Longrightarrow> length a \<le> length a'"
    and tok: "tok = Token ''latexBlock'' (''$$'' @ a @ ''$$'') [] (trim a)"
    by blast
  from src have sw: "startsWith src ''$$''" by (simp add: startsWith_iff)
  from src have rest: "?rest = a @ ''$$'' @ b" by simp
  then have "length a \<le> length ?rest \<and> ?Q (length a)"
    using startsWith_drop_iff [of "length a" ?rest "''$$''"] by blast
  moreover have "\<not> ?Q j" if "j < length a" for j
  proof
    assume "?Q j"
    moreover have "j \<le> length ?rest" using that rest by simp
    ultimately obtain a' b' where "?rest = a' @ ''$$'' @ b'" "length a' = j"
      using startsWith_drop_iff [of j ?rest "''$$''"] by blast
    then have "src = ''$$'' @ a' @ ''$$'' @ b'" "length a' = j"
      using src by simp_all
    with least [of a' b'] that show False by simp
  qed
  ultimately have "find ?Q [0..<Suc (length ?rest)] = Some (length a)"
    by (simp add: find_upt_Some del: upt_Suc)
  moreover have "take (length a) ?rest = a" using rest by simp
  ultimately show ?L
    using sw tok by (simp add: latexBlock_tokenizer_find del: upt_Suc)
qed

lemma latexBlock_tokenizer_None_iff:
  "latexBlock_tokenizer src = None \<longleftrightarrow> \<not> (\<exists>a b. src = ''$$'' @ a @ ''$$'' @ b)"
proof -
  let ?rest = "drop 2 src"
  let ?Q = "\<lambda>k. startsWith (drop k ?rest) ''$$''"
  have "(\<exists>a b. src = ''$$'' @ a @ ''$$'' @ b) \<longleftrightarrow>
        startsWith src ''$$'' \<and> (\<exists>k<Suc (length ?rest). ?Q k)"
  proof
    assume "\<exists>a b. src = ''$$'' @ a @ ''$$'' @ b"
    then obtain a b where src: "src = ''$$'' @ a @ ''$$'' @ b" by blast
    then have "?rest = a @ ''$$'' @ b" by simp
    then have "length a \<le> length ?rest \<and> ?Q (length a)"
      using startsWith_drop_iff [of "length a" ?rest "''$$''"] by blast
    moreover from src have "startsWith src ''$$''" by (simp add: startsWith_iff)
    ultimately show "startsWith src ''$$'' \<and> (\<exists>k<Suc (length ?rest). ?Q k)"
      by (metis less_Suc_eq_le)
  next
    assume h: "startsWith src ''$$'' \<and> (\<exists>k<Suc (length ?rest). ?Q k)"
    then obtain k where "k \<le> length ?rest" "?Q k" by (auto simp: less_Suc_eq_le)
    then obtain a b where "?rest = a @ ''$$'' @ b"
      using startsWith_drop_iff [of k ?rest "''$$''"] by blast
    moreover from h have "src = ''$$'' @ ?rest" by (auto simp: startsWith_iff)
    ultimately have "src = ''$$'' @ a @ ''$$'' @ b" by simp
    then show "\<exists>a b. src = ''$$'' @ a @ ''$$'' @ b" by blast
  qed
  then show ?thesis
    by (auto simp: latexBlock_tokenizer_find find_upt_None simp del: upt_Suc)
qed

lemma matches_star_nonempty: "matches (Star g r) s \<noteq> []"
  by (cases g; cases s) (simp_all add: matches_star)

lemma concat_matches_Eps: "concat (map (matches Eps) xs) = xs"
  by (induction xs) auto

lemma matches_Seq_Eps: "matches (Seq r Eps) s = matches r s"
  by (simp add: concat_matches_Eps)

lemma matches_rplus_space:
  "matches (rplus Greedy space) (seen, todo, caps) = [] \<longleftrightarrow> \<not> (\<exists>w t. todo = w # t \<and> js_space w)"
proof (cases todo)
  case Nil
  then show ?thesis by (simp add: rplus_def space_def)
next
  case (Cons x xs)
  show ?thesis
  proof (cases "js_space x")
    case True
    have "matches (Star Greedy (Cls js_space)) (x # seen, xs, caps) \<noteq> []"
      by (rule matches_star_nonempty)
    with True Cons show ?thesis by (simp add: rplus_def space_def)
  next
    case False
    with Cons show ?thesis by (simp add: rplus_def space_def)
  qed
qed

lemma matches_keyword:
  "matches (seqs [str kw, rplus Greedy space]) (seen, todo, caps) = [] \<longleftrightarrow>
     \<not> (\<exists>w t. todo = kw @ w # t \<and> js_space w)"
proof -
  have "matches (seqs [str kw, rplus Greedy space]) (seen, todo, caps) =
        (if startsWith todo kw
         then matches (rplus Greedy space) (rev kw @ seen, drop (length kw) todo, caps) else [])"
    by (simp add: seqs_def matches_str concat_matches_Eps)
  then have "matches (seqs [str kw, rplus Greedy space]) (seen, todo, caps) = [] \<longleftrightarrow>
        \<not> (startsWith todo kw \<and> (\<exists>w t. drop (length kw) todo = w # t \<and> js_space w))"
    by (simp add: matches_rplus_space)
  also have "\<dots> \<longleftrightarrow> \<not> (\<exists>w t. todo = kw @ w # t \<and> js_space w)"
    by (auto simp: startsWith_iff)
  finally show ?thesis .
qed

lemma exec_anchored_None:
  "exec (Seq Bol r) src = None \<longleftrightarrow> matches r ([], src, []) = []"
  by (auto simp: exec_anchored split: list.splits)

lemma exec_diagram_rule:
  "exec diagram_rule content \<noteq> None \<longleftrightarrow>
     (\<exists>kw \<in> set [''pie'', ''graph'', ''sequenceDiagram'', ''gantt'', ''classDiagram'', ''flowchart''].
        \<exists>w t. content = kw @ w # t \<and> js_space w)"
proof -
  have r: "diagram_rule =
      Seq Bol (Seq (Alt (seqs [str ''pie'', rplus Greedy space])
                  (Alt (seqs [str ''graph'', rplus Greedy space])
                  (Alt (seqs [str ''sequenceDiagram'', rplus Greedy space])
                  (Alt (seqs [str ''gantt'', rplus Greedy space])
                  (Alt (seqs [str ''classDiagram'', rplus Greedy space])
                       (seqs [str ''flowchart'', rplus Greedy space])))))) Eps)"
    by (simp add: diagram_rule_def seqs_def)
  have "exec diagram_rule content = None \<longleftrightarrow>
     matches (seqs [str ''pie'', rplus Greedy space]) ([], content, []) = [] \<and>
     matches (seqs [str ''graph'', rplus Greedy space]) ([], content, []) = [] \<and>
     matches (seqs [str ''sequenceDiagram'', rplus Greedy space]) ([], content, []) = [] \<and>
     matches (seqs [str ''gantt'', rplus Greedy space]) ([], content, []) = [] \<and>
     matches (seqs [str ''classDiagram'', rplus Greedy space]) ([], content, []) = [] \<and>
     matches (seqs [str ''flowchart'', rplus Greedy space]) ([], content, []) = []"
    unfolding r exec_anchored_None matches_Seq_Eps by simp
  then show ?thesis
    unfolding matches_keyword by auto
qed

text \<open>
  C5. The LaTeX block tokenizer emits a token exactly for the inputs that start with
  \<open>$$\<close> and hold a later \<open>$$\<close>. The token has type \<open>latexBlock\<close>; its \<open>raw\<close> field is
  the input up to and including the first later \<open>$$\<close> (the shortest inner content \<open>a\<close>,
  whatever code units it holds, newlines too), and its \<open>text\<close> field is the inner
  content trimmed. For every other input there is no token.
\<close>

theorem latexBlock_tokenizer_delimiters:
  "(latexBlock_tokenizer src = Some tok \<longleftrightarrow>
      (\<exists>a b. src = ''$$'' @ a @ ''$$'' @ b
         \<and> (\<forall>a' b'. src = ''$$'' @ a' @ ''$$'' @ b' \<longrightarrow> length a \<le> length a')
         \<and> tok = Token ''latexBlock'' (''$$'' @ a @ ''$$'') [] (trim a)))
   \<and> (latexBlock_tokenizer src = None \<longleftrightarrow> \<not> (\<exists>a b. src = ''$$'' @ a @ ''$$'' @ b))"
  using latexBlock_tokenizer_Some_iff [of src tok] latexBlock_tokenizer_None_iff [of src]
  by blast

text \<open>A formula over two lines followed by a second formula, and an unclosed one.\<close>

theorem latexBlock_tokenizer_delimiters_witness:
  "latexBlock_tokenizer (''$$ a+b'' @ [newline] @ ''=c $$ and $$d$$'') =
     Some (Token ''latexBlock'' (''$$ a+b'' @ [newline] @ ''=c $$'') [] (''a+b'' @ [newline] @ ''=c''))
   \<and> (\<exists>a b. ''$$ a+b'' @ [newline] @ ''=c $$ and $$d$$'' = ''$$'' @ a @ ''$$'' @ b
         \<and> (\<forall>a' b'. ''$$ a+b'' @ [newline] @ ''=c $$ and $$d$$'' = ''$$'' @ a' @ ''$$'' @ b'
               \<longrightarrow> length a \<le> length a')
         \<and> Token ''latexBlock'' (''$$ a+b'' @ [newline] @ ''=c $$'') [] (''a+b'' @ [newline] @ ''=c'') =
             Token ''latexBlock'' (''$$'' @ a @ ''$$'') [] (trim a))
   \<and> latexBlock_tokenizer ''$$ a+b $'' = None
   \<and> \<not> (\<exists>a b. ''$$ a+b $'' = ''$$'' @ a @ ''$$'' @ b)"
proof -
  have 1: "latexBlock_tokenizer (''$$ a+b'' @ [newline] @ ''=c $$ and $$d$$'') =
     Some (Token ''latexBlock'' (''$$ a+b'' @ [newline] @ ''=c $$'') [] (''a+b'' @ [newline] @ ''=c''))"
    by code_simp
  have 2: "latexBlock_tokenizer ''$$ a+b $'' = None"
    by code_simp
  show ?thesis
    using 1 2
      latexBlock_tokenizer_delimiters [of "''$$ a+b'' @ [newline] @ ''=c $$ and $$d$$''"
        "Token ''latexBlock'' (''$$ a+b'' @ [newline] @ ''=c $$'') [] (''a+b'' @ [newline] @ ''=c'')"]
      latexBlock_tokenizer_delimiters [of "''$$ a+b $''" undefined]
    by blast
qed

lemma map_of_set_prop: "map_of (set_prop es k v) = (map_of es)(k \<mapsto> v)"
  by (induction es) (auto simp: fun_eq_iff)

text \<open>
  C7. For a heading token of depth \<open>d\<close> the heading override returns
  \<open><hd ...>content</hd>\<close>. The style serialised into the tag is the configured
  \<open>options.block.hd\<close> style in which \<open>color\<close> is set to \<open>options.base.themeColor\<close>
  (every other key keeps its value); the tag carries it in a \<open>style\<close> attribute,
  and carries no \<open>style\<close> attribute exactly when the serialisation is the empty string.
\<close>

theorem renderer_heading_style:
  "renderer_heading num parseInline options \<lparr>heading_text = t, depth = d\<rparr> =
     (let styleStr = cssPropertiesToString num
                       (Some (set_prop (block_style options (''h'' @ digits d)) ''color''
                                (base_themeColor options)))
      in if styleStr = []
         then ''<h'' @ digits d @ ''>'' @ parseInline t @ ''</h'' @ digits d @ ''>''
         else ''<h'' @ digits d @ '' style='' @ [CHR 0x22] @ styleStr @ [CHR 0x22] @ ''>'' @
              parseInline t @ ''</h'' @ digits d @ ''>'')
   \<and> map_of (set_prop (block_style options (''h'' @ digits d)) ''color'' (base_themeColor options)) =
       (map_of (block_style options (''h'' @ digits d)))(''color'' \<mapsto> base_themeColor options)"
  by (simp add: renderer_heading_def style_attr_def Let_def map_of_set_prop)


lemma replace_all_end:
  "matches re (seen, [], []) = [] \<Longrightarrow> replace_all re f seen [] st = ([], st)"
  by (subst replace_all.simps) simp

lemma replace_all_skip:
  "matches re (seen, x # xs, []) = [] \<Longrightarrow>
   replace_all re f seen (x # xs) st =
     (x # fst (replace_all re f (x # seen) xs st), snd (replace_all re f (x # seen) xs st))"
  by (subst replace_all.simps) (simp add: case_prod_beta)

lemma replace_all_match:
  "matches re (seen, todo, []) = (seen', todo', caps') # rest \<Longrightarrow> length todo' < length todo \<Longrightarrow>
   replace_all re f seen todo st =
     (fst (f (rev (take (length seen' - length seen) seen'))
             (case map_of caps' 1 of None \<Rightarrow> [] | Some g \<Rightarrow> g) st) @
      fst (replace_all re f seen' todo'
             (snd (f (rev (take (length seen' - length seen) seen'))
                     (case map_of caps' 1 of None \<Rightarrow> [] | Some g \<Rightarrow> g) st))),
      snd (replace_all re f seen' todo'
             (snd (f (rev (take (length seen' - length seen) seen'))
                     (case map_of caps' 1 of None \<Rightarrow> [] | Some g \<Rightarrow> g) st))))"
  by (subst replace_all.simps) (simp add: case_prod_beta)

lemma replace_all_empty_end:
  "matches re (seen, [], []) = (seen', todo', caps') # rest \<Longrightarrow>
   replace_all re f seen [] st =
     f (rev (take (length seen' - length seen) seen'))
       (case map_of caps' 1 of None \<Rightarrow> [] | Some g \<Rightarrow> g) st"
  by (subst replace_all.simps) (simp add: case_prod_beta)

lemma replace_all_empty_skip:
  "matches re (seen, x # xs, []) = (seen', todo', caps') # rest \<Longrightarrow>
   \<not> length todo' < length (x # xs) \<Longrightarrow>
   replace_all re f seen (x # xs) st =
     (fst (f (rev (take (length seen' - length seen) seen'))
             (case map_of caps' 1 of None \<Rightarrow> [] | Some g \<Rightarrow> g) st) @
      x # fst (replace_all re f (x # seen) xs
                 (snd (f (rev (take (length seen' - length seen) seen'))
                         (case map_of caps' 1 of None \<Rightarrow> [] | Some g \<Rightarrow> g) st))),
      snd (replace_all re f (x # seen) xs
             (snd (f (rev (take (length seen' - length seen) seen'))
                     (case map_of caps' 1 of None \<Rightarrow> [] | Some g \<Rightarrow> g) st))))"
  by (subst replace_all.simps) (simp add: case_prod_beta)

text \<open>
  The five ways in which a step of \<open>replace_all\<close> goes on: no match at the end of the
  input or before it, a match that consumes input, an empty match at the end or before it.
\<close>

lemma replace_all_step:
  obtains
    (end_of_input) "todo = []" "matches re (seen, [], []) = []"
  | (skip) x xs where "todo = x # xs" "matches re (seen, x # xs, []) = []"
  | (match) seen' todo' caps' rest where
      "matches re (seen, todo, []) = (seen', todo', caps') # rest" "length todo' < length todo"
  | (empty_end) seen' todo' caps' rest where
      "todo = []" "matches re (seen, [], []) = (seen', todo', caps') # rest"
  | (empty_skip) x xs seen' todo' caps' rest where
      "todo = x # xs" "matches re (seen, x # xs, []) = (seen', todo', caps') # rest"
      "\<not> length todo' < length (x # xs)"
proof (cases "matches re (seen, todo, [])")
  case Nil
  then show ?thesis using end_of_input skip by (cases todo) auto
next
  case (Cons s rest)
  obtain seen' todo' caps' where s: "s = (seen', todo', caps')" by (cases s)
  show ?thesis
  proof (cases "length todo' < length todo")
    case True
    then show ?thesis using match Cons s by blast
  next
    case False
    then show ?thesis using empty_end empty_skip Cons s by (cases todo) auto
  qed
qed

lemma replace_all_inv:
  assumes step: "\<And>m g st. R st (snd (f m g st))"
    and refl: "\<And>st. R st st"
    and trans: "\<And>a b c. R a b \<Longrightarrow> R b c \<Longrightarrow> R a c"
  shows "R st (snd (replace_all re f seen todo st))"
proof (induction "length todo" arbitrary: seen todo st rule: less_induct)
  case less
  have IH: "R s (snd (replace_all re f sn td s))" if "length td < length todo" for sn td s
    using less.hyps that by blast
  show ?case
  proof (cases rule: replace_all_step [where re = re and seen = seen and todo = todo])
    case end_of_input
    then show ?thesis by (simp add: replace_all_end refl)
  next
    case (skip x xs)
    then show ?thesis using IH [of xs st "x # seen"] by (simp add: replace_all_skip)
  next
    case (match seen' todo' caps' rest)
    let ?r = "f (rev (take (length seen' - length seen) seen'))
                (case map_of caps' 1 of None \<Rightarrow> [] | Some g \<Rightarrow> g) st"
    have "R st (snd ?r)" by (rule step)
    moreover have "R (snd ?r) (snd (replace_all re f seen' todo' (snd ?r)))"
      using IH [of todo' "snd ?r" seen'] match by simp
    ultimately have "R st (snd (replace_all re f seen' todo' (snd ?r)))" by (rule trans)
    then show ?thesis using match by (simp add: replace_all_match)
  next
    case (empty_end seen' todo' caps' rest)
    then show ?thesis by (simp add: replace_all_empty_end step)
  next
    case (empty_skip x xs seen' todo' caps' rest)
    let ?r = "f (rev (take (length seen' - length seen) seen'))
                (case map_of caps' 1 of None \<Rightarrow> [] | Some g \<Rightarrow> g) st"
    have "R st (snd ?r)" by (rule step)
    moreover have "R (snd ?r) (snd (replace_all re f (x # seen) xs (snd ?r)))"
      using IH [of xs "snd ?r" "x # seen"] empty_skip by simp
    ultimately have "R st (snd (replace_all re f (x # seen) xs (snd ?r)))" by (rule trans)
    then show ?thesis using empty_skip by (simp add: replace_all_empty_skip)
  qed
qed

lemma replace_all_output:
  assumes out: "\<And>m g st st'. fst (f m g st) = fst (f m g st')"
  shows "fst (replace_all re f seen todo st) = fst (replace_all re f seen todo st')"
proof (induction "length todo" arbitrary: seen todo st st' rule: less_induct)
  case less
  have IH: "fst (replace_all re f sn td s) = fst (replace_all re f sn td s')"
    if "length td < length todo" for sn td s s'
    using less.hyps that by blast
  show ?case
  proof (cases rule: replace_all_step [where re = re and seen = seen and todo = todo])
    case end_of_input
    then show ?thesis by (simp add: replace_all_end)
  next
    case (skip x xs)
    then show ?thesis using IH [of xs "x # seen" st st'] by (simp add: replace_all_skip)
  next
    case (match seen' todo' caps' rest)
    let ?m = "rev (take (length seen' - length seen) seen')"
    let ?g = "case map_of caps' 1 of None \<Rightarrow> [] | Some g \<Rightarrow> g"
    have "fst (f ?m ?g st) = fst (f ?m ?g st')" by (rule out)
    moreover have "fst (replace_all re f seen' todo' (snd (f ?m ?g st))) =
                   fst (replace_all re f seen' todo' (snd (f ?m ?g st')))"
      using IH [of todo' seen'] match by simp
    ultimately show ?thesis using match by (simp add: replace_all_match)
  next
    case (empty_end seen' todo' caps' rest)
    then show ?thesis using out [of _ _ st st'] by (simp add: replace_all_empty_end)
  next
    case (empty_skip x xs seen' todo' caps' rest)
    let ?m = "rev (take (length seen' - length seen) seen')"
    let ?g = "case map_of caps' 1 of None \<Rightarrow> [] | Some g \<Rightarrow> g"
    have "fst (f ?m ?g st) = fst (f ?m ?g st')" by (rule out)
    moreover have "fst (replace_all re f (x # seen) xs (snd (f ?m ?g st))) =
                   fst (replace_all re f (x # seen) xs (snd (f ?m ?g st')))"
      using IH [of xs "x # seen"] empty_skip by simp
    ultimately show ?thesis using empty_skip by (simp add: replace_all_empty_skip)
  qed
qed











lemma latexBlock_renderer_cases:
  \<open>latexBlock_renderer num katex options tok eff =
     (case cssPropertiesToString_runtime num (latexBlock_style options) of
        Inl e \<Rightarrow> (raw tok, eff\<lparr>console := console eff @ [(''LaTeX rendering error:'', e)]\<rparr>)
      | Inr styleStr \<Rightarrow>
          (case katex (tok_text tok) True of
             Inl e \<Rightarrow>
               (raw tok,
                eff\<lparr>console := console eff @ [(''LaTeX rendering error:'', e)],
                    katex_calls := katex_calls eff @ [(tok_text tok, True)]\<rparr>)
           | Inr rendered \<Rightarrow>
               (''<div'' @ style_attr styleStr @ ''>'' @ rendered @ ''</div>'',
                eff\<lparr>katex_calls := katex_calls eff @ [(tok_text tok, True)]\<rparr>)))\<close>
  by (simp add: latexBlock_renderer_def try_catch_def latexBlock_try_def latexBlock_catch_def
        call_katex_def console_error_def split: sum.splits)

lemma mermaidBlock_renderer_cases:
  \<open>mermaidBlock_renderer num options tok eff =
     (case cssPropertiesToString_runtime num (mermaidBlock_style options) of
        Inl e \<Rightarrow>
          (''<pre><code class="language-mermaid">'' @ tok_text tok @ ''</code></pre>'',
           eff\<lparr>console := console eff @ [(''Mermaid rendering error:'', e)]\<rparr>)
      | Inr styleStr \<Rightarrow>
          (''<div'' @ style_attr styleStr @ '' class="mermaid">'' @ tok_text tok @ ''</div>'', eff))\<close>
  by (simp add: mermaidBlock_renderer_def try_catch_def mermaidBlock_try_def mermaidBlock_catch_def
        console_error_def split: sum.splits)

lemma inline_formula_cases:
  \<open>inline_formula katex match inline eff =
     (case katex (trim inline) False of
        Inl e \<Rightarrow>
          (match,
           eff\<lparr>console := console eff @ [(''LaTeX inline rendering error:'', e)],
               katex_calls := katex_calls eff @ [(trim inline, False)]\<rparr>)
      | Inr rendered \<Rightarrow>
          (rendered, eff\<lparr>katex_calls := katex_calls eff @ [(trim inline, False)]\<rparr>))\<close>
  by (simp add: inline_formula_def try_catch_def call_katex_def console_error_def split: sum.splits)


lemma effects_append_refl:
  "(eff :: effects) = eff\<lparr>console := console eff @ [], katex_calls := katex_calls eff @ []\<rparr>"
  by simp

lemma renderer_text_appends:
  "\<exists>c k. snd (renderer_text katex t eff) =
           eff\<lparr>console := console eff @ c, katex_calls := katex_calls eff @ k\<rparr>"
  unfolding renderer_text_def
proof (rule replace_all_inv
    [where R = "\<lambda>a b. \<exists>c k. b = a\<lparr>console := console a @ c, katex_calls := katex_calls a @ k\<rparr>"])
  show "\<exists>c k. snd (inline_formula katex m g st) =
                st\<lparr>console := console st @ c, katex_calls := katex_calls st @ k\<rparr>" for m g st
  proof (cases "katex (trim g) False")
    case (Inl e)
    then have "snd (inline_formula katex m g st) =
        st\<lparr>console := console st @ [(''LaTeX inline rendering error:'', e)],
           katex_calls := katex_calls st @ [(trim g, False)]\<rparr>"
      by (simp add: inline_formula_cases)
    then show ?thesis by blast
  next
    case (Inr r)
    then have "snd (inline_formula katex m g st) =
        st\<lparr>console := console st @ [], katex_calls := katex_calls st @ [(trim g, False)]\<rparr>"
      by (simp add: inline_formula_cases)
    then show ?thesis by blast
  qed
  show "\<exists>c k. st = st\<lparr>console := console st @ c, katex_calls := katex_calls st @ k\<rparr>"
    for st :: effects
    using effects_append_refl [of st] by blast
  show "\<exists>c k. z = x\<lparr>console := console x @ c, katex_calls := katex_calls x @ k\<rparr>"
    if "\<exists>c k. y = x\<lparr>console := console x @ c, katex_calls := katex_calls x @ k\<rparr>"
      and "\<exists>c k. z = y\<lparr>console := console y @ c, katex_calls := katex_calls y @ k\<rparr>"
    for x y z :: effects
  proof -
    from that obtain c k c' k' where
      "y = x\<lparr>console := console x @ c, katex_calls := katex_calls x @ k\<rparr>"
      "z = y\<lparr>console := console y @ c', katex_calls := katex_calls y @ k'\<rparr>"
      by blast
    then have "z = x\<lparr>console := console x @ (c @ c'), katex_calls := katex_calls x @ (k @ k')\<rparr>"
      by simp
    then show ?thesis by blast
  qed
qed

lemma renderer_text_output:
  "fst (renderer_text katex t eff) = fst (renderer_text katex t eff')"
  unfolding renderer_text_def
  by (rule replace_all_output) (simp add: inline_formula_cases split: sum.splits)






text \<open>
  C2, as amended. Constructing a MarkdownRenderer changes the state of the shared
  \<open>marked\<close> instance, which later calls observe: it registers two extensions, after
  which a \<open>latexBlock\<close> token is rendered by the LaTeX renderer of the new instance
  (with its options), a \<open>mermaidBlock\<close> token by its Mermaid renderer, and a token of
  any other type as before. A call of a renderer override, in contrast, changes nothing
  that a later call reads. The overrides with effects are the text override and the two
  extension renderers: the string each returns is the same whatever the calls before it
  have left behind, so two calls on the same token with the same options return
  identical strings; and all a call leaves behind is what it appends to the console
  and to the calls of the formula renderer.
\<close>

theorem construction_registers_extensions:
  "(tok_type tok = ''latexBlock'' \<longrightarrow>
      marked_render (snd (MarkdownRenderer_constructor num katex options m)) tok eff =
        Some (latexBlock_renderer num katex options tok eff))
   \<and> (tok_type tok = ''mermaidBlock'' \<longrightarrow>
      marked_render (snd (MarkdownRenderer_constructor num katex options m)) tok eff =
        Some (mermaidBlock_renderer num options tok eff))
   \<and> (tok_type tok \<noteq> ''latexBlock'' \<and> tok_type tok \<noteq> ''mermaidBlock'' \<longrightarrow>
      marked_render (snd (MarkdownRenderer_constructor num katex options m)) tok eff =
        marked_render m tok eff)
   \<and> length (snd (MarkdownRenderer_constructor num katex options m)) = length m + 2
   \<and> fst (renderer_text katex t eff) = fst (renderer_text katex t eff')
   \<and> fst (latexBlock_renderer num katex options tok eff) =
       fst (latexBlock_renderer num katex options tok eff')
   \<and> fst (mermaidBlock_renderer num options tok eff) =
       fst (mermaidBlock_renderer num options tok eff')
   \<and> (\<exists>c k. snd (renderer_text katex t eff) =
               eff\<lparr>console := console eff @ c, katex_calls := katex_calls eff @ k\<rparr>)
   \<and> (\<exists>c k. snd (latexBlock_renderer num katex options tok eff) =
               eff\<lparr>console := console eff @ c, katex_calls := katex_calls eff @ k\<rparr>)
   \<and> (\<exists>c k. snd (mermaidBlock_renderer num options tok eff) =
               eff\<lparr>console := console eff @ c, katex_calls := katex_calls eff @ k\<rparr>)"
proof -
  have a: "tok_type tok = ''latexBlock'' \<longrightarrow>
      marked_render (snd (MarkdownRenderer_constructor num katex options m)) tok eff =
        Some (latexBlock_renderer num katex options tok eff)"
    and b: "tok_type tok = ''mermaidBlock'' \<longrightarrow>
      marked_render (snd (MarkdownRenderer_constructor num katex options m)) tok eff =
        Some (mermaidBlock_renderer num options tok eff)"
    and c: "tok_type tok \<noteq> ''latexBlock'' \<and> tok_type tok \<noteq> ''mermaidBlock'' \<longrightarrow>
      marked_render (snd (MarkdownRenderer_constructor num katex options m)) tok eff =
        marked_render m tok eff"
    and d: "length (snd (MarkdownRenderer_constructor num katex options m)) = length m + 2"
    by (auto simp: MarkdownRenderer_constructor_def initializeMermaidExtension_def
        initializeLatexExtension_def marked_use_def marked_render_def
        latexBlockTokenizer_def mermaidBlockTokenizer_def)
  have f: "fst (latexBlock_renderer num katex options tok eff) =
       fst (latexBlock_renderer num katex options tok eff')"
    by (simp add: latexBlock_renderer_cases split: sum.splits)
  have g: "fst (mermaidBlock_renderer num options tok eff) =
       fst (mermaidBlock_renderer num options tok eff')"
    by (simp add: mermaidBlock_renderer_cases split: sum.splits)
  have i: "\<exists>c k. snd (latexBlock_renderer num katex options tok eff) =
               eff\<lparr>console := console eff @ c, katex_calls := katex_calls eff @ k\<rparr>"
  proof (cases "cssPropertiesToString_runtime num (latexBlock_style options)")
    case (Inl e)
    then have "snd (latexBlock_renderer num katex options tok eff) =
        eff\<lparr>console := console eff @ [(''LaTeX rendering error:'', e)],
            katex_calls := katex_calls eff @ []\<rparr>"
      by (simp add: latexBlock_renderer_cases)
    then show ?thesis by blast
  next
    case (Inr s)
    show ?thesis
    proof (cases "katex (tok_text tok) True")
      case (Inl e)
      with Inr have "snd (latexBlock_renderer num katex options tok eff) =
          eff\<lparr>console := console eff @ [(''LaTeX rendering error:'', e)],
              katex_calls := katex_calls eff @ [(tok_text tok, True)]\<rparr>"
        by (simp add: latexBlock_renderer_cases)
      then show ?thesis by blast
    next
      case (Inr r)
      with \<open>cssPropertiesToString_runtime num (latexBlock_style options) = Inr s\<close>
      have "snd (latexBlock_renderer num katex options tok eff) =
          eff\<lparr>console := console eff @ [],
              katex_calls := katex_calls eff @ [(tok_text tok, True)]\<rparr>"
        by (simp add: latexBlock_renderer_cases)
      then show ?thesis by blast
    qed
  qed
  have j: "\<exists>c k. snd (mermaidBlock_renderer num options tok eff) =
               eff\<lparr>console := console eff @ c, katex_calls := katex_calls eff @ k\<rparr>"
  proof (cases "cssPropertiesToString_runtime num (mermaidBlock_style options)")
    case (Inl e)
    then have "snd (mermaidBlock_renderer num options tok eff) =
        eff\<lparr>console := console eff @ [(''Mermaid rendering error:'', e)],
            katex_calls := katex_calls eff @ []\<rparr>"
      by (simp add: mermaidBlock_renderer_cases)
    then show ?thesis by blast
  next
    case (Inr s)
    then have "snd (mermaidBlock_renderer num options tok eff) =
        eff\<lparr>console := console eff @ [], katex_calls := katex_calls eff @ []\<rparr>"
      by (simp add: mermaidBlock_renderer_cases)
    then show ?thesis by blast
  qed
  from a b c d f g i j renderer_text_output [of katex t eff eff'] renderer_text_appends [of katex t eff]
  show ?thesis by blast
qed

text \<open>
  The first construction, seen by a Mermaid token and by a paragraph token; and the text
  override called a second time, after a first call has written to the console.
\<close>

theorem construction_registers_extensions_witness:
  \<open>marked_render
     (snd (MarkdownRenderer_constructor digits (\<lambda>s d. Inr s) \<lparr>runtime_block = None\<rparr> []))
     (Token ''mermaidBlock'' (''```'' @ [newline] @ ''graph TD'' @ [newline] @ ''```'') [] ''graph TD'')
     \<lparr>console = [], katex_calls = []\<rparr>
   = Some (mermaidBlock_renderer digits \<lparr>runtime_block = None\<rparr>
            (Token ''mermaidBlock'' (''```'' @ [newline] @ ''graph TD'' @ [newline] @ ''```'') [] ''graph TD'')
            \<lparr>console = [], katex_calls = []\<rparr>)
   \<and> marked_render
     (snd (MarkdownRenderer_constructor digits (\<lambda>s d. Inr s) \<lparr>runtime_block = None\<rparr> []))
     (Token ''paragraph'' ''x'' [] ''x'') \<lparr>console = [], katex_calls = []\<rparr> = None
   \<and> fst (renderer_text (\<lambda>s d. Inl (Thrown ''no'')) ''$x$''
            (snd (renderer_text (\<lambda>s d. Inl (Thrown ''no'')) ''$x$'' \<lparr>console = [], katex_calls = []\<rparr>)))
     = fst (renderer_text (\<lambda>s d. Inl (Thrown ''no'')) ''$x$'' \<lparr>console = [], katex_calls = []\<rparr>)\<close>
proof -
  let ?eff = "\<lparr>console = [], katex_calls = []\<rparr>"
  let ?options = "\<lparr>runtime_block = None\<rparr> :: nat RuntimeOptions"
  let ?mtok = "Token ''mermaidBlock'' (''```'' @ [newline] @ ''graph TD'' @ [newline] @ ''```'') [] ''graph TD''"
  let ?K = "\<lambda>(s :: string) (d :: bool). (Inl (Thrown ''no'') :: js_error + string)"
  have 1: "marked_render (snd (MarkdownRenderer_constructor digits (\<lambda>s d. Inr s) ?options [])) ?mtok ?eff
           = Some (mermaidBlock_renderer digits ?options ?mtok ?eff)"
    using construction_registers_extensions
      [where tok = ?mtok and num = digits and katex = "\<lambda>s d. Inr s" and options = ?options
         and m = "[]" and eff = ?eff and eff' = ?eff and t = "[]"]
    by simp
  have 2: "marked_render (snd (MarkdownRenderer_constructor digits (\<lambda>s d. Inr s) ?options []))
             (Token ''paragraph'' ''x'' [] ''x'') ?eff = None"
    using construction_registers_extensions
      [where tok = "Token ''paragraph'' ''x'' [] ''x''" and num = digits and katex = "\<lambda>s d. Inr s"
         and options = ?options and m = "[]" and eff = ?eff and eff' = ?eff and t = "[]"]
    by (simp add: marked_render_def)
  have 3: "fst (renderer_text ?K ''$x$'' (snd (renderer_text ?K ''$x$'' ?eff)))
           = fst (renderer_text ?K ''$x$'' ?eff)"
    using construction_registers_extensions
      [where tok = ?mtok and num = digits and katex = ?K and options = ?options and m = "[]"
         and t = "''$x$''" and eff = "snd (renderer_text ?K ''$x$'' ?eff)" and eff' = ?eff]
    by blast
  from 1 2 3 show ?thesis by blast
qed

text \<open>
  C2 as stated fails on the constructor: before the first construction no renderer is
  registered for a \<open>latexBlock\<close> token, after it the token is rendered.
\<close>

theorem construction_state_counterexample:
  \<open>marked_render [] (Token ''latexBlock'' ''$$x$$'' [] ''x'') \<lparr>console = [], katex_calls = []\<rparr> = None
   \<and> marked_render
       (snd (MarkdownRenderer_constructor digits (\<lambda>s d. Inr s) \<lparr>runtime_block = None\<rparr> []))
       (Token ''latexBlock'' ''$$x$$'' [] ''x'') \<lparr>console = [], katex_calls = []\<rparr>
     = Some (''<div style="display: block;margin: 1em 0;text-align: center">x</div>'',
             \<lparr>console = [], katex_calls = [(''x'', True)]\<rparr>)
   \<and> snd (MarkdownRenderer_constructor digits (\<lambda>s d. Inr s) \<lparr>runtime_block = None\<rparr> []) \<noteq> []\<close>
proof -
  have \<open>latexBlock_renderer digits (\<lambda>s d. Inr s) \<lparr>runtime_block = None\<rparr>
          (Token ''latexBlock'' ''$$x$$'' [] ''x'') \<lparr>console = [], katex_calls = []\<rparr>
        = (''<div style="display: block;margin: 1em 0;text-align: center">x</div>'',
           \<lparr>console = [], katex_calls = [(''x'', True)]\<rparr>)\<close>
    by code_simp
  then show ?thesis
    by (simp add: MarkdownRenderer_constructor_def initializeMermaidExtension_def
        initializeLatexExtension_def marked_use_def marked_render_def
        latexBlockTokenizer_def mermaidBlockTokenizer_def)
qed


lemma renderer_code_frame:
  \<open>\<exists>prefix. \<forall>highlightCode.
      renderer_code num toUpperCase codeThemes highlightCode options tok =
        prefix @ highlightCode (code_text tok) (case lang tok of None \<Rightarrow> [] | Some l \<Rightarrow> l)
                   (case codeTheme options of None \<Rightarrow> ''github'' | Some t \<Rightarrow> if t \<noteq> [] then t else ''github'')
                   (isLightCodeTheme codeThemes
                      (case codeTheme options of None \<Rightarrow> ''github'' | Some t \<Rightarrow> if t \<noteq> [] then t else ''github''))
          @ ''</code></pre></section>''\<close>
proof -
  have l: "length ''</code></pre></section>'' = 23" by simp
  have d: "drop 23 (rev ''</code></pre></section>'') = []" by simp
  show ?thesis
    apply (rule exI [where x = "rev (drop 23 (rev (renderer_code num toUpperCase codeThemes (\<lambda>_ _ _ _. []) options tok)))"])
    apply (simp only: renderer_code_def Let_def)
    apply (simp only: rev_append drop_append length_rev l d diff_self_eq_0 drop_0 append_Nil append_Nil2
              rev_rev_ident append_assoc rev.simps(1))
    apply simp
    done
qed

lemma getTokenStyles_light_monokai:
  assumes "find (\<lambda>t. theme_id t = th) codeThemes = Some requested"
    and "isLightColor (background (theme requested))"
    and "find (\<lambda>t. theme_id t = ''monokai'') codeThemes = Some fallbackTheme"
  shows "getTokenStyles codeThemes th tokenType True =
           (let tokenColor =
                  (case theme_prop (theme fallbackTheme) tokenType of
                     None \<Rightarrow> text_color (theme fallbackTheme)
                   | Some c \<Rightarrow> if c \<noteq> [] then c else text_color (theme fallbackTheme))
            in if tokenColor = [] then [] else ''color: '' @ tokenColor @ '';'')"
    and "getTokenStyles codeThemes th tokenType True =
           getTokenStyles codeThemes ''monokai'' tokenType False"
  using assms by (simp_all add: getTokenStyles_def Let_def)

lemma getTokenStyles_light_no_monokai:
  assumes "find (\<lambda>t. theme_id t = th) codeThemes = Some requested"
    and "find (\<lambda>t. theme_id t = ''monokai'') codeThemes = None"
  shows "getTokenStyles codeThemes th tokenType True = getTokenStyles codeThemes th tokenType False"
  using assms by (simp add: getTokenStyles_def Let_def cong: option.case_cong if_cong)

text \<open>
  C9, as amended. For a theme whose background is a light colour isLightCodeTheme
  holds, and getTokenStyles with \<open>forceDarkPalette\<close> set takes the token colour from
  the \<open>monokai\<close> theme when the table holds one: the result is what the \<open>monokai\<close>
  theme gives, its colour for the token type (an own property, or a member inherited
  from \<open>Object.prototype\<close>) or else its text colour. When the table holds no \<open>monokai\<close>
  theme the colour is that of the requested theme. The code block renderer puts into
  its markup, between a prefix that does not depend on the highlighter and the closing
  tags, what highlightCode returns for the text, the language, the theme and
  \<open>forceDarkPalette = isLightCodeTheme(codeTheme)\<close>; so when the highlighter colours
  its tokens by getTokenStyles with the theme and the flag it is given, the code block
  of a light theme is the one coloured with the \<open>monokai\<close> palette, if the table holds it.
\<close>

theorem getTokenStyles_forceDarkPalette:
  \<open>(find (\<lambda>t. theme_id t = th) codeThemes = Some requested
      \<and> isLightColor (background (theme requested)) \<longrightarrow>
      isLightCodeTheme codeThemes th
      \<and> (find (\<lambda>t. theme_id t = ''monokai'') codeThemes = Some fallbackTheme \<longrightarrow>
           getTokenStyles codeThemes th tokenType True =
             getTokenStyles codeThemes ''monokai'' tokenType False
           \<and> getTokenStyles codeThemes th tokenType True =
               (let tokenColor =
                      (case theme_prop (theme fallbackTheme) tokenType of
                         None \<Rightarrow> text_color (theme fallbackTheme)
                       | Some c \<Rightarrow> if c \<noteq> [] then c else text_color (theme fallbackTheme))
                in if tokenColor = [] then [] else ''color: '' @ tokenColor @ '';''))
      \<and> (find (\<lambda>t. theme_id t = ''monokai'') codeThemes = None \<longrightarrow>
           getTokenStyles codeThemes th tokenType True =
             getTokenStyles codeThemes th tokenType False))
   \<and> (\<exists>prefix. \<forall>highlighter.
         renderer_code num toUpperCase codeThemes highlighter options tok =
           prefix @
           highlighter (code_text tok) (case lang tok of None \<Rightarrow> [] | Some l \<Rightarrow> l)
             (case codeTheme options of None \<Rightarrow> ''github'' | Some t \<Rightarrow> if t \<noteq> [] then t else ''github'')
             (isLightCodeTheme codeThemes
                (case codeTheme options of None \<Rightarrow> ''github'' | Some t \<Rightarrow> if t \<noteq> [] then t else ''github''))
           @ ''</code></pre></section>'')
   \<and> ((\<forall>text l t flag.
          highlightCode text l t flag =
            paint (\<lambda>tokenType. getTokenStyles codeThemes t tokenType flag) text l)
       \<and> (case codeTheme options of None \<Rightarrow> ''github'' | Some t \<Rightarrow> if t \<noteq> [] then t else ''github'') = th
       \<and> find (\<lambda>t. theme_id t = th) codeThemes = Some requested
       \<and> isLightColor (background (theme requested))
       \<and> find (\<lambda>t. theme_id t = ''monokai'') codeThemes = Some fallbackTheme \<longrightarrow>
       renderer_code num toUpperCase codeThemes highlightCode options tok =
         renderer_code num toUpperCase codeThemes
           (\<lambda>text l t flag. paint (\<lambda>tokenType. getTokenStyles codeThemes ''monokai'' tokenType False) text l)
           options tok)\<close>
proof -
  have a: "isLightCodeTheme codeThemes th"
    if "find (\<lambda>t. theme_id t = th) codeThemes = Some requested"
       "isLightColor (background (theme requested))"
    using that by (simp add: isLightCodeTheme_def)
  obtain prefix where frame:
    "\<And>highlighter.
       renderer_code num toUpperCase codeThemes highlighter options tok =
         prefix @
         highlighter (code_text tok) (case lang tok of None \<Rightarrow> [] | Some l \<Rightarrow> l)
           (case codeTheme options of None \<Rightarrow> ''github'' | Some t \<Rightarrow> if t \<noteq> [] then t else ''github'')
           (isLightCodeTheme codeThemes
              (case codeTheme options of None \<Rightarrow> ''github'' | Some t \<Rightarrow> if t \<noteq> [] then t else ''github''))
         @ ''</code></pre></section>''"
    using renderer_code_frame [of num toUpperCase codeThemes options tok] by blast
  have c: "renderer_code num toUpperCase codeThemes highlightCode options tok =
         renderer_code num toUpperCase codeThemes
           (\<lambda>text l t flag. paint (\<lambda>tokenType. getTokenStyles codeThemes ''monokai'' tokenType False) text l)
           options tok"
    if hl: "\<forall>text l t flag.
          highlightCode text l t flag =
            paint (\<lambda>tokenType. getTokenStyles codeThemes t tokenType flag) text l"
      and th: "(case codeTheme options of None \<Rightarrow> ''github'' | Some t \<Rightarrow> if t \<noteq> [] then t else ''github'') = th"
      and f: "find (\<lambda>t. theme_id t = th) codeThemes = Some requested"
      and l: "isLightColor (background (theme requested))"
      and m: "find (\<lambda>t. theme_id t = ''monokai'') codeThemes = Some fallbackTheme"
  proof -
    have light: "isLightCodeTheme codeThemes th" using a f l by blast
    have "(\<lambda>tokenType. getTokenStyles codeThemes th tokenType True) =
          (\<lambda>tokenType. getTokenStyles codeThemes ''monokai'' tokenType False)"
      using getTokenStyles_light_monokai(2) [OF f l m] by auto
    then show ?thesis
      unfolding frame [of highlightCode] frame [of "\<lambda>text l t flag. paint (\<lambda>tokenType. getTokenStyles codeThemes ''monokai'' tokenType False) text l"]
      using hl light by (simp add: th)
  qed
  show ?thesis
    using a getTokenStyles_light_monokai [of th codeThemes requested fallbackTheme tokenType]
      getTokenStyles_light_no_monokai [of th codeThemes requested tokenType] frame c
    by blast
qed

text \<open>
  A table with a light \<open>github\<close> theme and \<open>monokai\<close>, a token type that is an own
  property and one that is inherited, and a code block rendered with a highlighter that
  wraps the text in one span coloured as a keyword.
\<close>

theorem getTokenStyles_forceDarkPalette_witness:
  \<open>isLightColor ''#ffffff''
   \<and> isLightCodeTheme
       [\<lparr>theme_id = ''github'',
         theme = \<lparr>background = ''#ffffff'', text_color = ''#24292e'',
                  token_colors = [(''keyword'', ''#d73a49'')]\<rparr>\<rparr>,
        \<lparr>theme_id = ''monokai'',
         theme = \<lparr>background = ''#272822'', text_color = ''#f8f8f2'',
                  token_colors = [(''keyword'', ''#f92672'')]\<rparr>\<rparr>] ''github''
   \<and> getTokenStyles
       [\<lparr>theme_id = ''github'',
         theme = \<lparr>background = ''#ffffff'', text_color = ''#24292e'',
                  token_colors = [(''keyword'', ''#d73a49'')]\<rparr>\<rparr>,
        \<lparr>theme_id = ''monokai'',
         theme = \<lparr>background = ''#272822'', text_color = ''#f8f8f2'',
                  token_colors = [(''keyword'', ''#f92672'')]\<rparr>\<rparr>] ''github'' ''keyword'' True
     = ''color: #f92672;''
   \<and> renderer_code digits (\<lambda>l. ''JS'')
       [\<lparr>theme_id = ''github'',
         theme = \<lparr>background = ''#ffffff'', text_color = ''#24292e'',
                  token_colors = [(''keyword'', ''#d73a49'')]\<rparr>\<rparr>,
        \<lparr>theme_id = ''monokai'',
         theme = \<lparr>background = ''#272822'', text_color = ''#f8f8f2'',
                  token_colors = [(''keyword'', ''#f92672'')]\<rparr>\<rparr>]
       (\<lambda>text l t flag.
           ''<span style="'' @
           getTokenStyles
             [\<lparr>theme_id = ''github'',
               theme = \<lparr>background = ''#ffffff'', text_color = ''#24292e'',
                        token_colors = [(''keyword'', ''#d73a49'')]\<rparr>\<rparr>,
              \<lparr>theme_id = ''monokai'',
               theme = \<lparr>background = ''#272822'', text_color = ''#f8f8f2'',
                        token_colors = [(''keyword'', ''#f92672'')]\<rparr>\<rparr>] t ''keyword'' flag @
           ''">'' @ text @ ''</span>'')
       \<lparr>base = None, block = None, codeTheme = Some ''github''\<rparr>
       \<lparr>code_text = ''let'', lang = Some ''js''\<rparr>
     = ''<section style="border-radius: 10px;overflow: hidden;background: linear-gradient(145deg, #1e1e1e, #2d2d2d);box-shadow: 0 6px 24px rgba(0,0,0,0.25), 0 0 0 1px rgba(255,255,255,0.05);font-family: Menlo, Monaco, Consolas, monospace;margin: 1em 0"><section style="display: flex; align-items: center; justify-content: space-between; padding: 12px 16px; background: linear-gradient(180deg, #3a3a3a 0%, #2a2a2a 100%); border-bottom: 1px solid rgba(0,0,0,0.3); font-family: Menlo, Monaco, Consolas, monospace"><section style="display: flex; gap: 8px;"><span style="width: 12px; height: 12px; border-radius: 50%; display: inline-block; background: linear-gradient(135deg, #ff605c 0%, #d94a46 100%);"></span><span style="width: 12px; height: 12px; border-radius: 50%; display: inline-block; background: linear-gradient(135deg, #ffbd44 0%, #d9a038 100%);"></span><span style="width: 12px; height: 12px; border-radius: 50%; display: inline-block; background: linear-gradient(135deg, #00ca4e 0%, #00a63e 100%);"></span></section><span style="font-size: 12px; font-weight: 600; color: #888; text-transform: uppercase; letter-spacing: 0.5px;">JS</span></section><pre style="margin: 0;padding: 16px 20px;overflow-x: auto;font-family: Menlo, Monaco, Consolas, monospace;font-size: 13px;line-height: 1.6;background: transparent;border-radius: 0;border: none"><code style="font-family: Menlo, Monaco, Consolas, monospace;font-size: 13px;line-height: 1.6;color: #f8f8f2"><span style="color: #f92672;">let</span></code></pre></section>''\<close>
proof -
  let ?github = "\<lparr>theme_id = ''github'',
         theme = \<lparr>background = ''#ffffff'', text_color = ''#24292e'',
                  token_colors = [(''keyword'', ''#d73a49'')]\<rparr>\<rparr>"
  let ?monokai = "\<lparr>theme_id = ''monokai'',
         theme = \<lparr>background = ''#272822'', text_color = ''#f8f8f2'',
                  token_colors = [(''keyword'', ''#f92672'')]\<rparr>\<rparr>"
  let ?paint = \<open>\<lambda>style text (l :: string). ''<span style="'' @ style ''keyword'' @ ''">'' @ text @ ''</span>''\<close>
  let ?hl = \<open>\<lambda>text (l :: string) t flag.
           ''<span style="'' @ getTokenStyles [?github, ?monokai] t ''keyword'' flag @
           ''">'' @ text @ ''</span>''\<close>
  let ?options = "\<lparr>base = None, block = None, codeTheme = Some ''github''\<rparr> :: nat RendererOptions"
  let ?tok = "\<lparr>code_text = ''let'', lang = Some ''js''\<rparr>"
  have light: "isLightColor ''#ffffff''"
    by code_simp
  have f1: "find (\<lambda>t. theme_id t = ''github'') [?github, ?monokai] = Some ?github"
    by simp
  have f2: "find (\<lambda>t. theme_id t = ''monokai'') [?github, ?monokai] = Some ?monokai"
    by simp
  have l2: "isLightColor (background (theme ?github))"
    using light by simp
  have p: "theme_prop (theme ?monokai) ''keyword'' = Some ''#f92672''"
    by (simp add: theme_prop_def)
  have th: "(case codeTheme ?options of None \<Rightarrow> ''github'' | Some t \<Rightarrow> if t \<noteq> [] then t else ''github'') = ''github''"
    by simp
  have hl: "\<forall>text l t flag.
          ?hl text l t flag = ?paint (\<lambda>tokenType. getTokenStyles [?github, ?monokai] t tokenType flag) text l"
    by simp
  have m: "getTokenStyles [?github, ?monokai] ''monokai'' ''keyword'' False = ''color: #f92672;''"
    by (simp add: getTokenStyles_def theme_prop_def)
  have r: \<open>renderer_code digits (\<lambda>l. ''JS'') [?github, ?monokai]
          (\<lambda>text l t flag. ?paint (\<lambda>tokenType. getTokenStyles [?github, ?monokai] ''monokai'' tokenType False) text l)
          ?options ?tok
     = ''<section style="border-radius: 10px;overflow: hidden;background: linear-gradient(145deg, #1e1e1e, #2d2d2d);box-shadow: 0 6px 24px rgba(0,0,0,0.25), 0 0 0 1px rgba(255,255,255,0.05);font-family: Menlo, Monaco, Consolas, monospace;margin: 1em 0"><section style="display: flex; align-items: center; justify-content: space-between; padding: 12px 16px; background: linear-gradient(180deg, #3a3a3a 0%, #2a2a2a 100%); border-bottom: 1px solid rgba(0,0,0,0.3); font-family: Menlo, Monaco, Consolas, monospace"><section style="display: flex; gap: 8px;"><span style="width: 12px; height: 12px; border-radius: 50%; display: inline-block; background: linear-gradient(135deg, #ff605c 0%, #d94a46 100%);"></span><span style="width: 12px; height: 12px; border-radius: 50%; display: inline-block; background: linear-gradient(135deg, #ffbd44 0%, #d9a038 100%);"></span><span style="width: 12px; height: 12px; border-radius: 50%; display: inline-block; background: linear-gradient(135deg, #00ca4e 0%, #00a63e 100%);"></span></section><span style="font-size: 12px; font-weight: 600; color: #888; text-transform: uppercase; letter-spacing: 0.5px;">JS</span></section><pre style="margin: 0;padding: 16px 20px;overflow-x: auto;font-family: Menlo, Monaco, Consolas, monospace;font-size: 13px;line-height: 1.6;background: transparent;border-radius: 0;border: none"><code style="font-family: Menlo, Monaco, Consolas, monospace;font-size: 13px;line-height: 1.6;color: #f8f8f2"><span style="color: #f92672;">let</span></code></pre></section>''\<close>
    unfolding m by code_simp
  from getTokenStyles_forceDarkPalette
         [where th = "''github''" and codeThemes = "[?github, ?monokai]" and requested = ?github
            and fallbackTheme = ?monokai and tokenType = "''keyword''" and num = digits
            and toUpperCase = "\<lambda>l. ''JS''" and highlightCode = ?hl and paint = ?paint
            and options = ?options and tok = ?tok]
       f1 f2 l2 th hl
  have "isLightCodeTheme [?github, ?monokai] ''github''
      \<and> getTokenStyles [?github, ?monokai] ''github'' ''keyword'' True =
          getTokenStyles [?github, ?monokai] ''monokai'' ''keyword'' False
      \<and> renderer_code digits (\<lambda>l. ''JS'') [?github, ?monokai] ?hl ?options ?tok =
          renderer_code digits (\<lambda>l. ''JS'') [?github, ?monokai]
            (\<lambda>text l t flag. ?paint (\<lambda>tokenType. getTokenStyles [?github, ?monokai] ''monokai'' tokenType False) text l)
            ?options ?tok"
    by blast
  then show ?thesis
    using light m r by simp
qed

text \<open>
  C9 as stated fails on a table without a \<open>monokai\<close> theme: for the light \<open>github\<close>
  theme and \<open>forceDarkPalette\<close> set, the keyword colour is that of \<open>github\<close> itself.
\<close>

theorem getTokenStyles_no_monokai_counterexample:
  "isLightColor ''#ffffff''
   \<and> getTokenStyles
       [\<lparr>theme_id = ''github'',
         theme = \<lparr>background = ''#ffffff'', text_color = ''#24292e'',
                  token_colors = [(''keyword'', ''#d73a49'')]\<rparr>\<rparr>] ''github'' ''keyword'' True
     = ''color: #d73a49;''"
proof -
  have light: "isLightColor ''#ffffff''"
    by code_simp
  then show ?thesis
    by (simp add: getTokenStyles_def theme_prop_def)
qed


text \<open>A heading of depth 2 with a configured style and theme colour, and one with neither.\<close>

theorem renderer_heading_style_witness:
  \<open>renderer_heading digits id
     \<lparr>base = Some \<lparr>themeColor = Some ''#00b38a''\<rparr>,
      block = Some [''h2'' \<mapsto> [(''fontSize'', JNum 20), (''color'', JStr ''black'')]],
      codeTheme = None\<rparr>
     \<lparr>heading_text = ''Title'', depth = 2\<rparr>
     = ''<h2 style="font-size: 20px;color: #00b38a">Title</h2>''
   \<and> renderer_heading digits id \<lparr>base = None, block = None, codeTheme = None\<rparr>
     \<lparr>heading_text = ''Title'', depth = 2\<rparr> = ''<h2>Title</h2>''\<close>
proof -
  have d: "digits 2 = ''2''"
    by code_simp
  have s1: \<open>cssPropertiesToString digits
          (Some [(''fontSize'', JNum 20), (''color'', JStr ''#00b38a'')])
        = ''font-size: 20px;color: #00b38a''\<close>
    by code_simp
  have s2: "cssPropertiesToString digits (Some [(''color'', JUndefined :: nat jsval)]) = []"
    by code_simp
  have b1: "block_style \<lparr>base = Some \<lparr>themeColor = Some ''#00b38a''\<rparr>,
      block = Some [''h2'' \<mapsto> [(''fontSize'', JNum 20), (''color'', JStr ''black'')]],
      codeTheme = None\<rparr> ''h2'' = [(''fontSize'', JNum (20::nat)), (''color'', JStr ''black'')]"
    by (simp add: block_style_def)
  show ?thesis
    using renderer_heading_style
      [of digits id "\<lparr>base = Some \<lparr>themeColor = Some ''#00b38a''\<rparr>,
      block = Some [''h2'' \<mapsto> [(''fontSize'', JNum 20), (''color'', JStr ''black'')]],
      codeTheme = None\<rparr>" "''Title''" 2]
      renderer_heading_style
      [of digits id "\<lparr>base = None, block = None, codeTheme = None\<rparr> :: nat RendererOptions" "''Title''" 2]
    by (simp add: d b1 s1 s2 block_style_def base_themeColor_def Let_def)
qed

lemma floor_rat_numeral_div: "\<lfloor>numeral a / numeral b :: rat\<rfloor> = numeral a div numeral b"
  by (metis floor_divide_of_int_eq of_int_numeral)

lemma ceiling_rat_numeral_div: "\<lceil>numeral a / numeral b :: rat\<rceil> = - (- numeral a div numeral b)"
  by (metis ceiling_def floor_divide_of_int_eq minus_divide_left of_int_minus of_int_numeral)

lemma floor_rat_one_div: "\<lfloor>1 / numeral b :: rat\<rfloor> = 1 div numeral b"
  by (metis floor_divide_of_int_eq of_int_1 of_int_numeral)

lemma ceiling_rat_one_div: "\<lceil>1 / numeral b :: rat\<rceil> = - (- 1 div numeral b)"
  by (metis ceiling_def floor_divide_of_int_eq minus_divide_left of_int_minus of_int_numeral of_int_1)


lemma pow2_powi: "pow2 k = 2 powi k"
  by (simp add: pow2_def power_int_def field_simps)

lemma pow2_pos: "0 < pow2 k"
  by (simp add: pow2_def)

lemma pow2_mono: "k \<le> l \<Longrightarrow> pow2 k \<le> pow2 l"
  unfolding pow2_powi by (rule power_int_increasing) simp_all

lemma round_half_even_error: "\<bar>of_int (round_half_even q) - q\<bar> \<le> 1 / 2"
proof -
  have "of_int \<lfloor>q\<rfloor> \<le> q" "q < of_int \<lfloor>q\<rfloor> + 1"
    by linarith+
  then show ?thesis
    by (auto simp: round_half_even_def Let_def)
qed

lemma binade_lower:
  assumes "0 < x"
  shows "pow2 (binade x) \<le> x"
proof (cases "1 \<le> x")
  case True
  then have pos: "0 < \<lfloor>x\<rfloor>" by simp
  have "bitlen \<lfloor>x\<rfloor> \<ge> 1"
    using pos bitlen_eq_zero_iff [of "\<lfloor>x\<rfloor>"] bitlen_nonneg [of "\<lfloor>x\<rfloor>"] by linarith
  then have "pow2 (binade x) = 2 ^ nat (bitlen \<lfloor>x\<rfloor> - 1)"
    using True by (simp add: binade_def pow2_def)
  also have "\<dots> \<le> of_int \<lfloor>x\<rfloor>"
  proof -
    have "(2::int) ^ nat (bitlen \<lfloor>x\<rfloor> - 1) \<le> \<lfloor>x\<rfloor>"
      using bitlen_bounds [OF pos] by simp
    then have "(of_int ((2::int) ^ nat (bitlen \<lfloor>x\<rfloor> - 1)) :: rat) \<le> of_int \<lfloor>x\<rfloor>"
      by (simp only: of_int_le_iff)
    then show ?thesis by simp
  qed
  also have "\<dots> \<le> x" by linarith
  finally show ?thesis .
next
  case False
  let ?n = "\<lceil>1 / x\<rceil>"
  from False assms have "1 < 1 / x" by (simp add: field_simps)
  then have n: "1 < ?n" by (simp add: less_ceiling_iff)
  then have pos: "0 < ?n - 1" by simp
  let ?m = "bitlen (?n - 1)"
  have m: "0 \<le> ?m" by (rule bitlen_nonneg)
  have "?n - 1 < 2 ^ nat ?m"
    using bitlen_bounds [OF pos] by simp
  then have "?n \<le> 2 ^ nat ?m" by simp
  then have "(of_int ?n :: rat) \<le> of_int (2 ^ nat ?m)"
    by (simp only: of_int_le_iff)
  moreover have "1 / x \<le> of_int ?n"
    by (rule le_of_int_ceiling)
  moreover have "(of_int (2 ^ nat ?m) :: rat) = 2 ^ nat ?m"
    by simp
  ultimately have "1 / x \<le> 2 ^ nat ?m"
    by linarith
  then have "1 / 2 ^ nat ?m \<le> x"
    using assms by (simp add: field_simps)
  moreover have "pow2 (binade x) = 1 / 2 ^ nat ?m"
    using False m by (auto simp: binade_def pow2_def)
  ultimately show ?thesis by simp
qed

lemma binade_le_7:
  assumes "0 < x" "x < 256"
  shows "binade x \<le> 7"
proof (rule ccontr)
  assume "\<not> binade x \<le> 7"
  then have "8 \<le> binade x" by simp
  then have "pow2 8 \<le> pow2 (binade x)" by (rule pow2_mono)
  with binade_lower [OF assms(1)] have "pow2 8 \<le> x" by simp
  with assms(2) show False by (simp add: pow2_def)
qed

lemma fl_pos_error:
  assumes "0 < x" "x < 256"
  shows "\<bar>fl_pos x - x\<bar> \<le> 1 / 2 ^ 46"
proof -
  let ?e = "binade x - 52"
  let ?q = "x / pow2 ?e"
  have p: "0 < pow2 ?e" by (rule pow2_pos)
  have "fl_pos x - x = (of_int (round_half_even ?q) - ?q) * pow2 ?e"
    using p by (simp add: fl_pos_def Let_def field_simps)
  then have "\<bar>fl_pos x - x\<bar> = \<bar>of_int (round_half_even ?q) - ?q\<bar> * pow2 ?e"
    using p by (simp add: abs_mult)
  also have "\<dots> \<le> 1 / 2 * pow2 ?e"
    using round_half_even_error [of ?q] p by (simp add: mult_right_mono)
  also have "\<dots> \<le> 1 / 2 * pow2 (- 45)"
  proof -
    have "?e \<le> - 45" using binade_le_7 [OF assms] by simp
    then have "pow2 ?e \<le> pow2 (- 45)" by (rule pow2_mono)
    then show ?thesis by simp
  qed
  also have "\<dots> = 1 / 2 ^ 46" by (simp add: pow2_def)
  finally show ?thesis .
qed

lemma fl_error:
  assumes "\<bar>x\<bar> < 256"
  shows "\<bar>fl x - x\<bar> \<le> 1 / 2 ^ 46"
proof -
  consider "x = 0" | "0 < x" | "x < 0" by linarith
  then show ?thesis
  proof cases
    case 1
    then show ?thesis by (simp add: fl_def)
  next
    case 2
    with assms fl_pos_error [of x] show ?thesis by (simp add: fl_def)
  next
    case 3
    have "fl x - x = - (fl_pos (- x) - (- x))"
      using 3 by (simp add: fl_def)
    then have "\<bar>fl x - x\<bar> = \<bar>fl_pos (- x) - (- x)\<bar>"
      by (simp only: abs_minus)
    with 3 assms fl_pos_error [of "- x"] show ?thesis by simp
  qed
qed


lemmas fl_eval = fl_def fl_pos_def binade_def pow2_def round_half_even_def Let_def compute_bitlen
  dmul_def dadd_def ddiv_def floor_rat_numeral_div ceiling_rat_numeral_div floor_rat_one_div
  ceiling_rat_one_div

lemma fl_299: "fl (299 / 1000) = 5386305154335113 / 18014398509481984"
  by (simp add: fl_eval)

lemma fl_587: "fl (587 / 1000) = 2643612981266481 / 4503599627370496"
  by (simp add: fl_eval)

lemma fl_114: "fl (114 / 1000) = 8214565720323785 / 72057594037927936"
  by (simp add: fl_eval)

lemma fl_07: "fl (7 / 10) = 3152519739159347 / 4503599627370496"
  by (simp add: fl_eval)

lemma w1u: "0 \<le> x \<Longrightarrow> 5386305154335113 / 18014398509481984 * x \<le> 299 * x / (1000::rat)"
  by linarith

lemma w2u: "0 \<le> y \<Longrightarrow> 2643612981266481 / 4503599627370496 * y \<le> 587 * y / (1000::rat)"
  by linarith

lemma w3u: "0 \<le> z \<Longrightarrow> z \<le> 255 \<Longrightarrow>
  8214565720323785 / 72057594037927936 * z \<le> 114 * z / (1000::rat) + 1 / 70368744177664"
  by linarith

lemma w1l: "0 \<le> x \<Longrightarrow> x \<le> 255 \<Longrightarrow>
  299 * x / (1000::rat) - 1 / 300000000000000 \<le> 5386305154335113 / 18014398509481984 * x"
  by linarith

lemma w2l: "0 \<le> y \<Longrightarrow> y \<le> 255 \<Longrightarrow>
  587 * y / (1000::rat) - 1 / 110000000000000 \<le> 2643612981266481 / 4503599627370496 * y"
  by linarith

lemma w3l: "0 \<le> z \<Longrightarrow> 114 * z / (1000::rat) \<le> 8214565720323785 / 72057594037927936 * z"
  by linarith

lemma weights_upper:
  fixes x y z :: rat
  assumes "0 \<le> x" "x \<le> 255" "0 \<le> y" "y \<le> 255" "0 \<le> z" "z \<le> 255"
  shows "5386305154335113 / 18014398509481984 * x + 2643612981266481 / 4503599627370496 * y +
         8214565720323785 / 72057594037927936 * z
         \<le> (299 * x + 587 * y + 114 * z) / 1000 + 1 / 70368744177664"
proof -
  define a1 where "a1 = 5386305154335113 / 18014398509481984 * x"
  define a2 where "a2 = 2643612981266481 / 4503599627370496 * y"
  define a3 where "a3 = 8214565720323785 / 72057594037927936 * z"
  define d where "d = (1 / 70368744177664 :: rat)"
  have e: "(299 * x + 587 * y + 114 * z) / 1000 = 299 * x / 1000 + 587 * y / 1000 + 114 * z / 1000"
    by (simp add: add_divide_distrib)
  have "a1 \<le> 299 * x / 1000" "a2 \<le> 587 * y / 1000" "a3 \<le> 114 * z / 1000 + d"
    unfolding a1_def a2_def a3_def d_def using assms by (simp_all only: w1u w2u w3u)
  then have "a1 + a2 + a3 \<le> 299 * x / 1000 + 587 * y / 1000 + 114 * z / 1000 + d"
    by linarith
  then show ?thesis
    unfolding a1_def a2_def a3_def d_def e .
qed

lemma weights_lower:
  fixes x y z :: rat
  assumes "0 \<le> x" "x \<le> 255" "0 \<le> y" "y \<le> 255" "0 \<le> z" "z \<le> 255"
  shows "(299 * x + 587 * y + 114 * z) / 1000 - 1 / 70368744177664
         \<le> 5386305154335113 / 18014398509481984 * x + 2643612981266481 / 4503599627370496 * y +
         8214565720323785 / 72057594037927936 * z"
proof -
  define a1 where "a1 = 5386305154335113 / 18014398509481984 * x"
  define a2 where "a2 = 2643612981266481 / 4503599627370496 * y"
  define a3 where "a3 = 8214565720323785 / 72057594037927936 * z"
  define d where "d = (1 / 70368744177664 :: rat)"
  define d1 where "d1 = (1 / 300000000000000 :: rat)"
  define d2 where "d2 = (1 / 110000000000000 :: rat)"
  have e: "(299 * x + 587 * y + 114 * z) / 1000 = 299 * x / 1000 + 587 * y / 1000 + 114 * z / 1000"
    by (simp add: add_divide_distrib)
  have dd: "d1 + d2 \<le> d"
    unfolding d_def d1_def d2_def by simp
  have "299 * x / 1000 - d1 \<le> a1" "587 * y / 1000 - d2 \<le> a2" "114 * z / 1000 \<le> a3"
    unfolding a1_def a2_def a3_def d1_def d2_def using assms by (simp_all only: w1l w2l w3l)
  with dd have "299 * x / 1000 + 587 * y / 1000 + 114 * z / 1000 - d \<le> a1 + a2 + a3"
    by linarith
  then show ?thesis
    unfolding a1_def a2_def a3_def d_def e .
qed

lemma fl_error': "\<bar>x\<bar> < 256 \<Longrightarrow> \<bar>fl x - x\<bar> \<le> 1 / 70368744177664"
  using fl_error [of x] by simp

lemma luminance_error:
  fixes r g b :: int
  assumes "0 \<le> r" "r \<le> 255" "0 \<le> g" "g \<le> 255" "0 \<le> b" "b \<le> 255"
  shows "\<bar>luminance r g b - (299 * of_int r + 587 * of_int g + 114 * of_int b) / 255000\<bar>
           \<le> 1 / 17592186044416"
proof -
  let ?r = "of_int r :: rat" and ?g = "of_int g :: rat" and ?b = "of_int b :: rat"
  have rb: "0 \<le> ?r" "?r \<le> 255" and gb: "0 \<le> ?g" "?g \<le> 255" and bb: "0 \<le> ?b" "?b \<le> 255"
    using assms by simp_all
  define a1 where "a1 = 5386305154335113 / 18014398509481984 * ?r"
  define a2 where "a2 = 2643612981266481 / 4503599627370496 * ?g"
  define a3 where "a3 = 8214565720323785 / 72057594037927936 * ?b"
  define T where "T = 299 * ?r / 1000 + 587 * ?g / 1000 + 114 * ?b / 1000"
  have T: "T = (299 * ?r + 587 * ?g + 114 * ?b) / 1000"
    by (simp add: T_def add_divide_distrib)
  define d where "d = (1 / 70368744177664 :: rat)"
  define p1 where "p1 = fl a1"
  define p2 where "p2 = fl a2"
  define p3 where "p3 = fl a3"
  define s1 where "s1 = fl (p1 + p2)"
  define s2 where "s2 = fl (s1 + p3)"
  define q where "q = fl (s2 / 255)"
  have L: "luminance r g b = q"
    by (simp only: luminance_def dmul_def dadd_def ddiv_def fl_299 fl_587 fl_114
        a1_def a2_def a3_def p1_def p2_def p3_def s1_def s2_def q_def of_int_numeral)
  have d: "0 \<le> d" "d \<le> 1" "4 * d = 1 / 17592186044416"
    by (simp_all add: d_def)
  have ab: "0 \<le> a1" "a1 \<le> 100" "0 \<le> a2" "a2 \<le> 200" "0 \<le> a3" "a3 \<le> 50"
    unfolding a1_def a2_def a3_def using rb gb bb by linarith+
  have wu: "a1 + a2 + a3 \<le> T + d"
    unfolding a1_def a2_def a3_def T d_def using rb gb bb by (rule weights_upper)
  have wl: "T - d \<le> a1 + a2 + a3"
    unfolding a1_def a2_def a3_def T d_def using rb gb bb by (rule weights_lower)
  have Tb: "0 \<le> T" "T \<le> 255"
    unfolding T_def using rb gb bb by linarith+
  have "\<bar>a1\<bar> < 256" using ab by linarith
  then have e1: "\<bar>p1 - a1\<bar> \<le> d"
    unfolding p1_def d_def by (rule fl_error')
  have "\<bar>a2\<bar> < 256" using ab by linarith
  then have e2: "\<bar>p2 - a2\<bar> \<le> d"
    unfolding p2_def d_def by (rule fl_error')
  have "\<bar>a3\<bar> < 256" using ab by linarith
  then have e3: "\<bar>p3 - a3\<bar> \<le> d"
    unfolding p3_def d_def by (rule fl_error')
  have "\<bar>p1 + p2\<bar> < 256" using ab d wu Tb e1 e2 by linarith
  then have e4: "\<bar>s1 - (p1 + p2)\<bar> \<le> d"
    unfolding s1_def d_def by (rule fl_error')
  have "\<bar>s1 + p3\<bar> < 256" using ab d wu Tb e1 e2 e3 e4 by linarith
  then have e5: "\<bar>s2 - (s1 + p3)\<bar> \<le> d"
    unfolding s2_def d_def by (rule fl_error')
  have "\<bar>s2 / 255\<bar> < 256" using ab d wu Tb e1 e2 e3 e4 e5 by linarith
  then have e6: "\<bar>q - s2 / 255\<bar> \<le> d"
    unfolding q_def d_def by (rule fl_error')
  have "\<bar>q - T / 255\<bar> \<le> 4 * d"
    using d wu wl e1 e2 e3 e4 e5 e6 by linarith
  moreover have "T / 255 = (299 * ?r + 587 * ?g + 114 * ?b) / 255000"
    by (simp add: T)
  ultimately show ?thesis
    unfolding L using d by simp
qed


lemma L_eval:
  "luminance r g b =
     fl (fl (fl (fl (5386305154335113 / 18014398509481984 * of_int r) +
                 fl (2643612981266481 / 4503599627370496 * of_int g)) +
             fl (8214565720323785 / 72057594037927936 * of_int b)) / 255)"
  by (simp only: luminance_def dmul_def dadd_def ddiv_def fl_299 fl_587 fl_114 of_int_numeral)

lemmas fl_eval2 = fl_def fl_pos_def binade_def pow2_def round_half_even_def Let_def compute_bitlen
  floor_rat_numeral_div ceiling_rat_numeral_div floor_rat_one_div ceiling_rat_one_div

lemma ties_chunk_0: "list_all ties_dark [0..7]"
  by (simp add: upto.simps ties_dark_def tie_dark_def fl_07 L_eval fl_eval2)

lemma ties_chunk_1: "list_all ties_dark [8..15]"
  by (simp add: upto.simps ties_dark_def tie_dark_def fl_07 L_eval fl_eval2)

lemma ties_chunk_2: "list_all ties_dark [16..23]"
  by (simp add: upto.simps ties_dark_def tie_dark_def fl_07 L_eval fl_eval2)

lemma ties_chunk_3: "list_all ties_dark [24..31]"
  by (simp add: upto.simps ties_dark_def tie_dark_def fl_07 L_eval fl_eval2)

lemma ties_chunk_4: "list_all ties_dark [32..39]"
  by (simp add: upto.simps ties_dark_def tie_dark_def fl_07 L_eval fl_eval2)

lemma ties_chunk_5: "list_all ties_dark [40..47]"
  by (simp add: upto.simps ties_dark_def tie_dark_def fl_07 L_eval fl_eval2)

lemma ties_chunk_6: "list_all ties_dark [48..55]"
  by (simp add: upto.simps ties_dark_def tie_dark_def fl_07 L_eval fl_eval2)

lemma ties_chunk_7: "list_all ties_dark [56..63]"
  by (simp add: upto.simps ties_dark_def tie_dark_def fl_07 L_eval fl_eval2)

lemma ties_chunk_8: "list_all ties_dark [64..71]"
  by (simp add: upto.simps ties_dark_def tie_dark_def fl_07 L_eval fl_eval2)

lemma ties_chunk_9: "list_all ties_dark [72..79]"
  by (simp add: upto.simps ties_dark_def tie_dark_def fl_07 L_eval fl_eval2)

lemma ties_chunk_10: "list_all ties_dark [80..87]"
  by (simp add: upto.simps ties_dark_def tie_dark_def fl_07 L_eval fl_eval2)

lemma ties_chunk_11: "list_all ties_dark [88..95]"
  by (simp add: upto.simps ties_dark_def tie_dark_def fl_07 L_eval fl_eval2)

lemma ties_chunk_12: "list_all ties_dark [96..103]"
  by (simp add: upto.simps ties_dark_def tie_dark_def fl_07 L_eval fl_eval2)

lemma ties_chunk_13: "list_all ties_dark [104..111]"
  by (simp add: upto.simps ties_dark_def tie_dark_def fl_07 L_eval fl_eval2)

lemma ties_chunk_14: "list_all ties_dark [112..119]"
  by (simp add: upto.simps ties_dark_def tie_dark_def fl_07 L_eval fl_eval2)

lemma ties_chunk_15: "list_all ties_dark [120..127]"
  by (simp add: upto.simps ties_dark_def tie_dark_def fl_07 L_eval fl_eval2)

lemma ties_chunk_16: "list_all ties_dark [128..135]"
  by (simp add: upto.simps ties_dark_def tie_dark_def fl_07 L_eval fl_eval2)

lemma ties_chunk_17: "list_all ties_dark [136..143]"
  by (simp add: upto.simps ties_dark_def tie_dark_def fl_07 L_eval fl_eval2)

lemma ties_chunk_18: "list_all ties_dark [144..151]"
  by (simp add: upto.simps ties_dark_def tie_dark_def fl_07 L_eval fl_eval2)

lemma ties_chunk_19: "list_all ties_dark [152..159]"
  by (simp add: upto.simps ties_dark_def tie_dark_def fl_07 L_eval fl_eval2)

lemma ties_chunk_20: "list_all ties_dark [160..167]"
  by (simp add: upto.simps ties_dark_def tie_dark_def fl_07 L_eval fl_eval2)

lemma ties_chunk_21: "list_all ties_dark [168..175]"
  by (simp add: upto.simps ties_dark_def tie_dark_def fl_07 L_eval fl_eval2)

lemma ties_chunk_22: "list_all ties_dark [176..183]"
  by (simp add: upto.simps ties_dark_def tie_dark_def fl_07 L_eval fl_eval2)

lemma ties_chunk_23: "list_all ties_dark [184..191]"
  by (simp add: upto.simps ties_dark_def tie_dark_def fl_07 L_eval fl_eval2)

lemma ties_chunk_24: "list_all ties_dark [192..199]"
  by (simp add: upto.simps ties_dark_def tie_dark_def fl_07 L_eval fl_eval2)

lemma ties_chunk_25: "list_all ties_dark [200..207]"
  by (simp add: upto.simps ties_dark_def tie_dark_def fl_07 L_eval fl_eval2)

lemma ties_chunk_26: "list_all ties_dark [208..215]"
  by (simp add: upto.simps ties_dark_def tie_dark_def fl_07 L_eval fl_eval2)

lemma ties_chunk_27: "list_all ties_dark [216..223]"
  by (simp add: upto.simps ties_dark_def tie_dark_def fl_07 L_eval fl_eval2)

lemma ties_chunk_28: "list_all ties_dark [224..231]"
  by (simp add: upto.simps ties_dark_def tie_dark_def fl_07 L_eval fl_eval2)

lemma ties_chunk_29: "list_all ties_dark [232..239]"
  by (simp add: upto.simps ties_dark_def tie_dark_def fl_07 L_eval fl_eval2)

lemma ties_chunk_30: "list_all ties_dark [240..247]"
  by (simp add: upto.simps ties_dark_def tie_dark_def fl_07 L_eval fl_eval2)

lemma ties_chunk_31: "list_all ties_dark [248..255]"
  by (simp add: upto.simps ties_dark_def tie_dark_def fl_07 L_eval fl_eval2)

lemma all_from_chunks:
  fixes P :: "int \<Rightarrow> bool"
  assumes c0: "list_all P [0..7]"
    and c1: "list_all P [8..15]"
    and c2: "list_all P [16..23]"
    and c3: "list_all P [24..31]"
    and c4: "list_all P [32..39]"
    and c5: "list_all P [40..47]"
    and c6: "list_all P [48..55]"
    and c7: "list_all P [56..63]"
    and c8: "list_all P [64..71]"
    and c9: "list_all P [72..79]"
    and c10: "list_all P [80..87]"
    and c11: "list_all P [88..95]"
    and c12: "list_all P [96..103]"
    and c13: "list_all P [104..111]"
    and c14: "list_all P [112..119]"
    and c15: "list_all P [120..127]"
    and c16: "list_all P [128..135]"
    and c17: "list_all P [136..143]"
    and c18: "list_all P [144..151]"
    and c19: "list_all P [152..159]"
    and c20: "list_all P [160..167]"
    and c21: "list_all P [168..175]"
    and c22: "list_all P [176..183]"
    and c23: "list_all P [184..191]"
    and c24: "list_all P [192..199]"
    and c25: "list_all P [200..207]"
    and c26: "list_all P [208..215]"
    and c27: "list_all P [216..223]"
    and c28: "list_all P [224..231]"
    and c29: "list_all P [232..239]"
    and c30: "list_all P [240..247]"
    and c31: "list_all P [248..255]"
    and r: "0 \<le> r" "r \<le> 255"
  shows "P r"
proof -
  have a: "list_all P [0..63]"
    using c0 c1 c2 c3 c4 c5 c6 c7 by (simp add: upto.simps)
  have b: "list_all P [64..127]"
    using c8 c9 c10 c11 c12 c13 c14 c15 by simp
  have c: "list_all P [128..191]"
    using c16 c17 c18 c19 c20 c21 c22 c23 by simp
  have d: "list_all P [192..255]"
    using c24 c25 c26 c27 c28 c29 c30 c31 by simp
  from r consider "r \<in> {0..63}" | "r \<in> {64..127}" | "r \<in> {128..191}" | "r \<in> {192..255}"
    by (cases "r \<le> 63"; cases "r \<le> 127"; cases "r \<le> 191") auto
  then show ?thesis
    using a b c d unfolding list_all_iff set_upto by cases blast+
qed

lemma tie_residue:
  fixes r g b :: int
  assumes "299 * r + 587 * g + 114 * b = 178500"
  shows "g mod 114 = (47 * (178500 - 299 * r)) mod 114"
proof -
  have "178500 - 299 * r = 587 * g + 114 * b"
    using assms by simp
  then have "47 * (178500 - 299 * r) = g + 114 * (242 * g + 47 * b)"
    by (simp only:) (simp add: algebra_simps)
  then have "(47 * (178500 - 299 * r)) mod 114 = (g + 114 * (242 * g + 47 * b)) mod 114"
    by (simp only:)
  also have "\<dots> = g mod 114"
    by (rule mod_mult_self2)
  finally show ?thesis by simp
qed

lemma tie_candidates:
  fixes g :: int
  assumes "0 \<le> g" "g \<le> 255" "g mod 114 = g0"
  shows "g = g0 \<or> g = g0 + 114 \<or> g = g0 + 228"
  using assms by presburger

lemma ties_dark_all:
  assumes "0 \<le> r" "r \<le> 255"
  shows "ties_dark r"
  by (rule all_from_chunks [of ties_dark, OF ties_chunk_0 ties_chunk_1 ties_chunk_2 ties_chunk_3 ties_chunk_4 ties_chunk_5 ties_chunk_6 ties_chunk_7 ties_chunk_8 ties_chunk_9 ties_chunk_10 ties_chunk_11 ties_chunk_12 ties_chunk_13 ties_chunk_14 ties_chunk_15 ties_chunk_16 ties_chunk_17 ties_chunk_18 ties_chunk_19 ties_chunk_20 ties_chunk_21 ties_chunk_22 ties_chunk_23 ties_chunk_24 ties_chunk_25 ties_chunk_26 ties_chunk_27 ties_chunk_28 ties_chunk_29 ties_chunk_30 ties_chunk_31 assms])

lemma tie_not_light:
  fixes r g b :: int
  assumes "0 \<le> r" "r \<le> 255" "0 \<le> g" "g \<le> 255" "0 \<le> b" "b \<le> 255"
    and tie: "299 * r + 587 * g + 114 * b = 178500"
  shows "\<not> (fl (7 / 10) < luminance r g b)"
proof -
  let ?g0 = "(47 * (178500 - 299 * r)) mod 114"
  have k: "178500 - 299 * r - 587 * g = 114 * b"
    using tie by simp
  have "g = ?g0 \<or> g = ?g0 + 114 \<or> g = ?g0 + 228"
    using assms(3,4) tie_residue [OF tie] by (rule tie_candidates)
  moreover have "tie_dark r ?g0 \<and> tie_dark r (?g0 + 114) \<and> tie_dark r (?g0 + 228)"
    using ties_dark_all [OF assms(1,2)] by (simp only: ties_dark_def)
  ultimately have "tie_dark r g" by blast
  then show ?thesis
    using assms(4,5,6) by (simp add: tie_dark_def k)
qed

lemma luminance_threshold:
  fixes r g b :: int
  assumes "0 \<le> r" "r \<le> 255" "0 \<le> g" "g \<le> 255" "0 \<le> b" "b \<le> 255"
  shows "fl (7 / 10) < luminance r g b \<longleftrightarrow> 178500 < 299 * r + 587 * g + 114 * b"
proof -
  define S where "S = 299 * r + 587 * g + 114 * b"
  define S' where "S' = (of_int S :: rat)"
  define L where "L = luminance r g b"
  have S': "S' = 299 * of_int r + 587 * of_int g + 114 * of_int b"
    by (simp add: S'_def S_def)
  have err: "\<bar>L - S' / 255000\<bar> \<le> 1 / 17592186044416"
    unfolding L_def S' by (rule luminance_error [OF assms])
  consider "S = 178500" | "178501 \<le> S" | "S \<le> 178499" by linarith
  then show ?thesis
  proof cases
    case 1
    then have "\<not> (fl (7 / 10) < luminance r g b)"
      using tie_not_light [OF assms] by (simp add: S_def)
    with 1 show ?thesis by (simp add: S_def)
  next
    case 2
    then have "(of_int 178501 :: rat) \<le> of_int S" by (simp only: of_int_le_iff)
    then have "178501 \<le> S'" by (simp add: S'_def)
    with err have "3152519739159347 / 4503599627370496 < L" by linarith
    with 2 show ?thesis by (simp add: fl_07 L_def S_def)
  next
    case 3
    then have "(of_int S :: rat) \<le> of_int 178499" by (simp only: of_int_le_iff)
    then have "S' \<le> 178499" by (simp add: S'_def)
    with err have "\<not> (3152519739159347 / 4503599627370496 < L)" by linarith
    with 3 show ?thesis by (simp add: fl_07 L_def S_def)
  qed
qed

lemma hex_digit_plain:
  assumes "is_hex_digit c"
  shows "\<not> js_space c" "c \<noteq> CHR ''-''" "c \<noteq> CHR ''+''" "c \<noteq> CHR ''x''" "c \<noteq> CHR ''X''"
    "c \<noteq> CHR ''#''" "hex_digit_value c \<le> 15"
  using assms by (auto simp: is_hex_digit_def js_space_def hex_digit_value_def Let_def)

lemma parseInt16_pair:
  assumes "is_hex_digit c1" "is_hex_digit c2"
  shows "parseInt16 [c1, c2] = Some (int (16 * hex_digit_value c1 + hex_digit_value c2))"
  using assms hex_digit_plain [OF assms(1)] hex_digit_plain [OF assms(2)]
  by (simp add: parseInt16_def trimStart_def startsWith_def Let_def)

lemma isLightColor_channels:
  assumes "parseInt16 s1 = Some r" "parseInt16 s2 = Some g" "parseInt16 s3 = Some b"
    and "0 \<le> r" "r \<le> 255" "0 \<le> g" "g \<le> 255" "0 \<le> b" "b \<le> 255"
  shows "(case map parseInt16 [s1, s2, s3] of
            [Some r, Some g, Some b] \<Rightarrow> fl (7 / 10) < luminance r g b
          | _ \<Rightarrow> False) \<longleftrightarrow>
         7 / 10 < (299 / 1000 * of_int r + 587 / 1000 * of_int g + 114 / 1000 * of_int b) / (255 :: rat)"
proof -
  have "(178500 < 299 * r + 587 * g + 114 * b) \<longleftrightarrow>
        (of_int 178500 :: rat) < of_int (299 * r + 587 * g + 114 * b)"
    by (simp only: of_int_less_iff)
  also have "\<dots> \<longleftrightarrow>
     7 / 10 < (299 / 1000 * of_int r + 587 / 1000 * of_int g + 114 / 1000 * of_int b) / (255 :: rat)"
    by (simp add: field_simps)
  finally show ?thesis
    using assms luminance_threshold [of r g b] by simp
qed

lemma isLightColor_six:
  assumes "is_hex_digit r1" "is_hex_digit r2" "is_hex_digit g1" "is_hex_digit g2"
    "is_hex_digit b1" "is_hex_digit b2"
  shows "isLightColor [CHR ''#'', r1, r2, g1, g2, b1, b2] \<longleftrightarrow>
           7 / 10 < (299 / 1000 * of_nat (16 * hex_digit_value r1 + hex_digit_value r2)
                   + 587 / 1000 * of_nat (16 * hex_digit_value g1 + hex_digit_value g2)
                   + 114 / 1000 * of_nat (16 * hex_digit_value b1 + hex_digit_value b2)) / (255 :: rat)"
    and "isLightColor [r1, r2, g1, g2, b1, b2] \<longleftrightarrow>
           7 / 10 < (299 / 1000 * of_nat (16 * hex_digit_value r1 + hex_digit_value r2)
                   + 587 / 1000 * of_nat (16 * hex_digit_value g1 + hex_digit_value g2)
                   + 114 / 1000 * of_nat (16 * hex_digit_value b1 + hex_digit_value b2)) / (255 :: rat)"
proof -
  let ?r = "int (16 * hex_digit_value r1 + hex_digit_value r2)"
  let ?g = "int (16 * hex_digit_value g1 + hex_digit_value g2)"
  let ?b = "int (16 * hex_digit_value b1 + hex_digit_value b2)"
  have p: "parseInt16 [r1, r2] = Some ?r" "parseInt16 [g1, g2] = Some ?g" "parseInt16 [b1, b2] = Some ?b"
    using assms by (simp_all only: parseInt16_pair)
  have bounds: "0 \<le> ?r" "?r \<le> 255" "0 \<le> ?g" "?g \<le> 255" "0 \<le> ?b" "?b \<le> 255"
    using hex_digit_plain(7) [OF assms(1)] hex_digit_plain(7) [OF assms(2)]
      hex_digit_plain(7) [OF assms(3)] hex_digit_plain(7) [OF assms(4)]
      hex_digit_plain(7) [OF assms(5)] hex_digit_plain(7) [OF assms(6)]
    by linarith+
  note ch = isLightColor_channels [OF p bounds]
  have h1: "remove_first CHR ''#'' [CHR ''#'', r1, r2, g1, g2, b1, b2] = [r1, r2, g1, g2, b1, b2]"
    by simp
  have h2: "remove_first CHR ''#'' [r1, r2, g1, g2, b1, b2] = [r1, r2, g1, g2, b1, b2]"
    using hex_digit_plain(6) [OF assms(1)] hex_digit_plain(6) [OF assms(2)]
      hex_digit_plain(6) [OF assms(3)] hex_digit_plain(6) [OF assms(4)]
      hex_digit_plain(6) [OF assms(5)] hex_digit_plain(6) [OF assms(6)]
    by simp
  have e: "isLightColor c \<longleftrightarrow>
        (case map parseInt16 [[r1, r2], [g1, g2], [b1, b2]] of
            [Some r, Some g, Some b] \<Rightarrow> fl (7 / 10) < luminance r g b
          | _ \<Rightarrow> False)" if "remove_first CHR ''#'' c = [r1, r2, g1, g2, b1, b2]" for c
    using that by (simp add: isLightColor_def Let_def)
  show "isLightColor [CHR ''#'', r1, r2, g1, g2, b1, b2] \<longleftrightarrow>
           7 / 10 < (299 / 1000 * of_nat (16 * hex_digit_value r1 + hex_digit_value r2)
                   + 587 / 1000 * of_nat (16 * hex_digit_value g1 + hex_digit_value g2)
                   + 114 / 1000 * of_nat (16 * hex_digit_value b1 + hex_digit_value b2)) / (255 :: rat)"
    unfolding e [OF h1] ch by (simp only: of_int_of_nat_eq)
  show "isLightColor [r1, r2, g1, g2, b1, b2] \<longleftrightarrow>
           7 / 10 < (299 / 1000 * of_nat (16 * hex_digit_value r1 + hex_digit_value r2)
                   + 587 / 1000 * of_nat (16 * hex_digit_value g1 + hex_digit_value g2)
                   + 114 / 1000 * of_nat (16 * hex_digit_value b1 + hex_digit_value b2)) / (255 :: rat)"
    unfolding e [OF h2] ch by (simp only: of_int_of_nat_eq)
qed

lemma isLightColor_three:
  assumes "is_hex_digit r1" "is_hex_digit g1" "is_hex_digit b1"
  shows "isLightColor [CHR ''#'', r1, g1, b1] \<longleftrightarrow>
           7 / 10 < (299 / 1000 * of_nat (17 * hex_digit_value r1)
                   + 587 / 1000 * of_nat (17 * hex_digit_value g1)
                   + 114 / 1000 * of_nat (17 * hex_digit_value b1)) / (255 :: rat)"
    and "isLightColor [r1, g1, b1] \<longleftrightarrow>
           7 / 10 < (299 / 1000 * of_nat (17 * hex_digit_value r1)
                   + 587 / 1000 * of_nat (17 * hex_digit_value g1)
                   + 114 / 1000 * of_nat (17 * hex_digit_value b1)) / (255 :: rat)"
proof -
  let ?r = "int (17 * hex_digit_value r1)"
  let ?g = "int (17 * hex_digit_value g1)"
  let ?b = "int (17 * hex_digit_value b1)"
  have p: "parseInt16 [r1, r1] = Some ?r" "parseInt16 [g1, g1] = Some ?g" "parseInt16 [b1, b1] = Some ?b"
    using assms by (simp_all add: parseInt16_pair)
  have bounds: "0 \<le> ?r" "?r \<le> 255" "0 \<le> ?g" "?g \<le> 255" "0 \<le> ?b" "?b \<le> 255"
    using hex_digit_plain(7) [OF assms(1)] hex_digit_plain(7) [OF assms(2)]
      hex_digit_plain(7) [OF assms(3)]
    by linarith+
  note ch = isLightColor_channels [OF p bounds]
  have h1: "remove_first CHR ''#'' [CHR ''#'', r1, g1, b1] = [r1, g1, b1]"
    by simp
  have h2: "remove_first CHR ''#'' [r1, g1, b1] = [r1, g1, b1]"
    using hex_digit_plain(6) [OF assms(1)] hex_digit_plain(6) [OF assms(2)]
      hex_digit_plain(6) [OF assms(3)]
    by simp
  have e: "isLightColor c \<longleftrightarrow>
        (case map parseInt16 [[r1, r1], [g1, g1], [b1, b1]] of
            [Some r, Some g, Some b] \<Rightarrow> fl (7 / 10) < luminance r g b
          | _ \<Rightarrow> False)" if "remove_first CHR ''#'' c = [r1, g1, b1]" for c
    using that by (simp add: isLightColor_def Let_def)
  show "isLightColor [CHR ''#'', r1, g1, b1] \<longleftrightarrow>
           7 / 10 < (299 / 1000 * of_nat (17 * hex_digit_value r1)
                   + 587 / 1000 * of_nat (17 * hex_digit_value g1)
                   + 114 / 1000 * of_nat (17 * hex_digit_value b1)) / (255 :: rat)"
    unfolding e [OF h1] ch by (simp only: of_int_of_nat_eq)
  show "isLightColor [r1, g1, b1] \<longleftrightarrow>
           7 / 10 < (299 / 1000 * of_nat (17 * hex_digit_value r1)
                   + 587 / 1000 * of_nat (17 * hex_digit_value g1)
                   + 114 / 1000 * of_nat (17 * hex_digit_value b1)) / (255 :: rat)"
    unfolding e [OF h2] ch by (simp only: of_int_of_nat_eq)
qed

text \<open>
  C3. For a colour of six hexadecimal digits, with or without the leading \<open>#\<close>,
  isLightColor (which computes in doubles) returns true if and only if
  \<open>(0.299 r + 0.587 g + 0.114 b) / 255\<close>, computed exactly, exceeds 0.7, where each
  channel is the value of its two digits; for a colour of three digits the same holds
  with each channel 17 times the value of its digit. isLightCodeTheme returns this
  classification of the background colour of the theme it finds.
\<close>

theorem isLightColor_luminance:
  "(is_hex_digit r1 \<and> is_hex_digit r2 \<and> is_hex_digit g1 \<and> is_hex_digit g2
      \<and> is_hex_digit b1 \<and> is_hex_digit b2 \<longrightarrow>
      (isLightColor [CHR ''#'', r1, r2, g1, g2, b1, b2] \<longleftrightarrow>
         7 / 10 < (299 / 1000 * of_nat (16 * hex_digit_value r1 + hex_digit_value r2)
                 + 587 / 1000 * of_nat (16 * hex_digit_value g1 + hex_digit_value g2)
                 + 114 / 1000 * of_nat (16 * hex_digit_value b1 + hex_digit_value b2)) / (255 :: rat))
      \<and> (isLightColor [r1, r2, g1, g2, b1, b2] \<longleftrightarrow>
         7 / 10 < (299 / 1000 * of_nat (16 * hex_digit_value r1 + hex_digit_value r2)
                 + 587 / 1000 * of_nat (16 * hex_digit_value g1 + hex_digit_value g2)
                 + 114 / 1000 * of_nat (16 * hex_digit_value b1 + hex_digit_value b2)) / (255 :: rat)))
   \<and> (is_hex_digit r1 \<and> is_hex_digit g1 \<and> is_hex_digit b1 \<longrightarrow>
      (isLightColor [CHR ''#'', r1, g1, b1] \<longleftrightarrow>
         7 / 10 < (299 / 1000 * of_nat (17 * hex_digit_value r1)
                 + 587 / 1000 * of_nat (17 * hex_digit_value g1)
                 + 114 / 1000 * of_nat (17 * hex_digit_value b1)) / (255 :: rat))
      \<and> (isLightColor [r1, g1, b1] \<longleftrightarrow>
         7 / 10 < (299 / 1000 * of_nat (17 * hex_digit_value r1)
                 + 587 / 1000 * of_nat (17 * hex_digit_value g1)
                 + 114 / 1000 * of_nat (17 * hex_digit_value b1)) / (255 :: rat)))
   \<and> (find (\<lambda>t. theme_id t = th) codeThemes = Some themeConfig \<longrightarrow>
      isLightCodeTheme codeThemes th = isLightColor (background (theme themeConfig)))"
proof -
  have c: "isLightCodeTheme codeThemes th = isLightColor (background (theme themeConfig))"
    if "find (\<lambda>t. theme_id t = th) codeThemes = Some themeConfig"
    using that by (simp add: isLightCodeTheme_def)
  from isLightColor_six [of r1 r2 g1 g2 b1 b2] isLightColor_three [of r1 g1 b1] c
  show ?thesis by blast
qed

text \<open>White and black, a dark background, and a theme with a white background.\<close>

theorem isLightColor_luminance_witness:
  "isLightColor ''#ffffff'' \<and> \<not> isLightColor ''272822'' \<and> isLightColor ''#fff'' \<and> \<not> isLightColor ''000''
   \<and> isLightCodeTheme
        [\<lparr>theme_id = ''github'',
          theme = \<lparr>background = ''#ffffff'', text_color = ''#24292e'', token_colors = []\<rparr>\<rparr>]
        ''github''"
proof -
  let ?github = "\<lparr>theme_id = ''github'',
          theme = \<lparr>background = ''#ffffff'', text_color = ''#24292e'', token_colors = []\<rparr>\<rparr>"
  have d: "is_hex_digit CHR ''f''" "is_hex_digit CHR ''2''" "is_hex_digit CHR ''7''"
    "is_hex_digit CHR ''8''" "is_hex_digit CHR ''0''"
    by (simp_all add: is_hex_digit_def)
  have v: "hex_digit_value CHR ''f'' = 15" "hex_digit_value CHR ''2'' = 2" "hex_digit_value CHR ''7'' = 7"
    "hex_digit_value CHR ''8'' = 8" "hex_digit_value CHR ''0'' = 0"
    by (simp_all add: hex_digit_value_def)
  have f: "find (\<lambda>t. theme_id t = ''github'') [?github] = Some ?github"
    by simp
  from isLightColor_luminance
         [of "CHR ''f''" "CHR ''f''" "CHR ''f''" "CHR ''f''" "CHR ''f''" "CHR ''f''"
             "''github''" "[?github]" ?github] d v f
  have a: "isLightColor ''#ffffff''" "isLightColor ''#fff''"
    "isLightCodeTheme [?github] ''github'' = isLightColor (background (theme ?github))"
    by simp_all
  from isLightColor_luminance
         [of "CHR ''2''" "CHR ''7''" "CHR ''2''" "CHR ''8''" "CHR ''2''" "CHR ''2''"
             "''github''" "[?github]" ?github] d v
  have b: "\<not> isLightColor ''272822''"
    by simp
  from isLightColor_luminance
         [of "CHR ''0''" "CHR ''0''" "CHR ''0''" "CHR ''0''" "CHR ''0''" "CHR ''0''"
             "''github''" "[?github]" ?github] d v
  have c: "\<not> isLightColor ''000''"
    by simp
  from a b c show ?thesis by simp
qed

end
